theory Spec2Isabelle
  imports Main "HOL-Library.Word"
begin

section \<open>The Python executor proxy of Mesos (proxy_executor.cpp)\<close>

text \<open>
  \<^verbatim>\<open>ProxyExecutor\<close> forwards each callback of the native executor driver to the method of the
  same name of a Python executor object. Every callback takes the interpreter lock, turns
  its protobuf arguments into Python objects, calls the method, and at the label
  \<^verbatim>\<open>cleanup\<close> looks at the interpreter's error indicator: a pending exception is printed
  and (except in \<^verbatim>\<open>error\<close>) the driver is aborted; then the local references are dropped.

  The embedding passes the state explicitly. The interpreter is an error indicator and an
  opaque heap; what the callback does that can be seen from outside is appended to a trace.
  \<^verbatim>\<open>PyErr_Print\<close> does not return when the pending exception is \<^verbatim>\<open>SystemExit\<close>: the
  interpreter ends the process there, and what the callback has after that call is not run.
\<close>

subsection \<open>Data\<close>

type_synonym byte = "8 word"
type_synonym bytes = "byte list"

text \<open>A \<^verbatim>\<open>PyObject*\<close> that is not NULL is an address; NULL is \<open>None\<close> of \<open>obj option\<close>.\<close>

type_synonym obj = nat

text \<open>The pointer \<^verbatim>\<open>ExecutorDriver* driver\<close> of every callback.\<close>

type_synonym driver = nat

text \<open>
  A pending Python exception: \<^verbatim>\<open>SystemExit\<close> (whatever its argument), which is what
  \<^verbatim>\<open>sys.exit\<close> raises, or any other exception, as \<^verbatim>\<open>PyErr_Print\<close> would show it.
\<close>

datatype pyerr = PyException string | SystemExit

text \<open>
  The protobuf messages that \<^verbatim>\<open>createPythonProtobuf\<close> is instantiated at. The message
  classes are generated code; a message is kept as its serialised bytes.
\<close>

datatype message =
    ExecutorInfo bytes
  | FrameworkInfo bytes
  | SlaveInfo bytes
  | TaskInfo bytes
  | TaskID bytes

text \<open>
  The C arguments given after the format string of \<^verbatim>\<open>PyObject_CallMethod\<close>, and the
  Python arguments built from them. \<open>CharPtr\<close> carries the memory the pointer points to,
  \<open>Size\<close> a \<^verbatim>\<open>size_t\<close> of 64 bits.
\<close>

datatype carg = PyObj obj | CharPtr bytes | Size "64 word"

datatype pyarg = ArgObject obj | ArgString bytes

text \<open>
  What a callback does, in the order it does it. \<open>Print\<close> is the traceback that
  \<^verbatim>\<open>PyErr_Print\<close> writes; \<open>Exit\<close> is the interpreter ending the process inside
  \<^verbatim>\<open>PyErr_Print\<close>, with whatever it writes on its way out.
\<close>

datatype action =
    Acquire
  | Release
  | Marshal string "obj option"
  | Invoke obj string "pyarg list" "obj option"
  | Cerr string
  | Print pyerr
  | Abort driver
  | Decref obj
  | Exit

record 'h pystate =
  indicator :: "pyerr option"
  heap :: 'h
  trace :: "action list"
  exited :: bool

text \<open>
  The code outside this file, as parameters: \<open>marshaller\<close> is what
  \<^verbatim>\<open>createPythonProtobuf\<close> (module.hpp) does to the interpreter and returns, \<open>handler\<close>
  is what a method call on a Python object does and returns. Both see and may change the
  error indicator and the heap, and nothing else. \<open>Py_InspectFlag\<close> is the flag of the
  interpreter of that name (the option \<^verbatim>\<open>-i\<close>), which \<^verbatim>\<open>PyErr_Print\<close> reads.
\<close>

type_synonym 'h runtime = "pyerr option \<times> 'h"

record 'h world =
  marshaller :: "message \<Rightarrow> string \<Rightarrow> 'h runtime \<Rightarrow> obj option \<times> 'h runtime"
  handler :: "obj \<Rightarrow> string \<Rightarrow> pyarg list \<Rightarrow> 'h runtime \<Rightarrow> obj option \<times> 'h runtime"
  Py_InspectFlag :: bool

text \<open>
  \<^verbatim>\<open>ProxyExecutor\<close> holds \<^verbatim>\<open>impl\<close>, the Python driver object; \<^verbatim>\<open>impl\<close> itself is passed
  to the handler as its first argument, and \<^verbatim>\<open>impl->pythonExecutor\<close> is the handler.
\<close>

record MesosExecutorDriverImpl =
  address :: obj
  pythonExecutor :: obj

record ProxyExecutor =
  impl :: MesosExecutorDriverImpl

subsection \<open>The primitives the callbacks are written with\<close>

definition InterpreterLock :: "'h pystate \<Rightarrow> 'h pystate" where
  "InterpreterLock s = s\<lparr>trace := trace s @ [Acquire]\<rparr>"

definition InterpreterLock_destroy :: "'h pystate \<Rightarrow> 'h pystate" where
  "InterpreterLock_destroy s = s\<lparr>trace := trace s @ [Release]\<rparr>"

definition createPythonProtobuf ::
  "'h world \<Rightarrow> message \<Rightarrow> string \<Rightarrow> 'h pystate \<Rightarrow> obj option \<times> 'h pystate" where
  "createPythonProtobuf w m typeName s =
     (case marshaller w m typeName (indicator s, heap s) of
        (r, (e, h)) \<Rightarrow>
          (r, s\<lparr>indicator := e, heap := h, trace := trace s @ [Marshal typeName r]\<rparr>))"

text \<open>
  \<^verbatim>\<open>std::string::data()\<close> points to the characters of the string, which a zero byte
  follows.
\<close>

definition string_data :: "bytes \<Rightarrow> bytes" where
  "string_data d = d @ [0]"

text \<open>
  The string that the format \<^verbatim>\<open>s#\<close> builds from a pointer and the size given after it.
  \<^verbatim>\<open>Python.h\<close> is included with \<^verbatim>\<open>PY_SSIZE_T_CLEAN\<close> undefined, so the size is read as a
  C \<^verbatim>\<open>int\<close>: of the \<^verbatim>\<open>size_t\<close> that the callback passes, the low 32 bits, signed. A
  negative size makes \<^verbatim>\<open>Py_BuildValue\<close> take the length from \<^verbatim>\<open>strlen\<close>; otherwise it
  copies that many bytes.
\<close>

definition s_hash :: "bytes \<Rightarrow> 64 word \<Rightarrow> bytes" where
  "s_hash mem sz =
     (let n = sint (ucast sz :: 32 word)
      in if n < 0 then takeWhile (\<lambda>b. b \<noteq> 0) mem else take (nat n) mem)"

text \<open>
  The formats of \<^verbatim>\<open>Py_BuildValue\<close> that this file uses: \<^verbatim>\<open>O\<close> passes an object on,
  \<^verbatim>\<open>s#\<close> is as above, \<^verbatim>\<open>s\<close> alone copies up to the first zero byte.
\<close>

fun build_value :: "string \<Rightarrow> carg list \<Rightarrow> pyarg list" where
  "build_value [] cs = []"
| "build_value (f # fmt) cs =
     (if f = CHR ''O'' then
        (case cs of
           PyObj p # cs' \<Rightarrow> ArgObject p # build_value fmt cs'
         | _ \<Rightarrow> [])
      else if f = CHR ''s'' then
        (case fmt of
           g # fmt' \<Rightarrow>
             (if g = CHR ''#'' then
                (case cs of
                   CharPtr mem # Size n # cs' \<Rightarrow> ArgString (s_hash mem n) # build_value fmt' cs'
                 | _ \<Rightarrow> [])
              else
                (case cs of
                   CharPtr mem # cs' \<Rightarrow>
                     ArgString (takeWhile (\<lambda>b. b \<noteq> 0) mem) # build_value fmt cs'
                 | _ \<Rightarrow> []))
         | [] \<Rightarrow>
             (case cs of
                CharPtr mem # cs' \<Rightarrow> [ArgString (takeWhile (\<lambda>b. b \<noteq> 0) mem)]
              | _ \<Rightarrow> []))
      else [])"

definition PyObject_CallMethod ::
  "'h world \<Rightarrow> obj \<Rightarrow> string \<Rightarrow> string \<Rightarrow> carg list \<Rightarrow> 'h pystate \<Rightarrow> obj option \<times> 'h pystate"
  where
  "PyObject_CallMethod w target name fmt cs s =
     (let args = build_value fmt cs in
      case handler w target name args (indicator s, heap s) of
        (r, (e, h)) \<Rightarrow>
          (r, s\<lparr>indicator := e, heap := h, trace := trace s @ [Invoke target name args r]\<rparr>))"

definition cerr :: "string \<Rightarrow> 'h pystate \<Rightarrow> 'h pystate" where
  "cerr line s = s\<lparr>trace := trace s @ [Cerr line]\<rparr>"

definition PyErr_Occurred :: "'h pystate \<Rightarrow> bool" where
  "PyErr_Occurred s = (indicator s \<noteq> None)"

text \<open>
  \<^verbatim>\<open>PyErr_Print\<close> writes the traceback of the pending exception and clears the indicator.
  When the exception is \<^verbatim>\<open>SystemExit\<close> and \<open>Py_InspectFlag\<close> is not set, it writes no
  traceback and ends the process instead: it does not return (\<open>Inl\<close>).
\<close>

definition exits :: "'h world \<Rightarrow> pyerr \<Rightarrow> bool" where
  "exits w e = (e = SystemExit \<and> \<not> Py_InspectFlag w)"

definition PyErr_Print :: "'h world \<Rightarrow> 'h pystate \<Rightarrow> 'h pystate + 'h pystate" where
  "PyErr_Print w s =
     (case indicator s of
        None \<Rightarrow> Inr s
      | Some e \<Rightarrow>
          if exits w e
          then Inl (s\<lparr>indicator := None, trace := trace s @ [Exit], exited := True\<rparr>)
          else Inr (s\<lparr>indicator := None, trace := trace s @ [Print e]\<rparr>))"

text \<open>
  A call that may end the process gives \<open>Inl\<close> with the state in which the process
  ended, or \<open>Inr\<close> with the state in which the call returned. What is written after
  such a call runs only in the second case.
\<close>

definition and_then ::
  "'h pystate + 'h pystate \<Rightarrow> ('h pystate \<Rightarrow> 'h pystate) \<Rightarrow> 'h pystate + 'h pystate" where
  "and_then r f = (case r of Inl s \<Rightarrow> Inl s | Inr s \<Rightarrow> Inr (f s))"

definition driver_abort :: "driver \<Rightarrow> 'h pystate \<Rightarrow> 'h pystate" where
  "driver_abort d s = s\<lparr>trace := trace s @ [Abort d]\<rparr>"

text \<open>
  \<^verbatim>\<open>Py_XDECREF\<close> does nothing on NULL and drops one reference otherwise. What the
  destructor of an object does when its last reference goes is not part of the embedding.
\<close>

definition Py_XDECREF :: "obj option \<Rightarrow> 'h pystate \<Rightarrow> 'h pystate" where
  "Py_XDECREF p s =
     (case p of
        None \<Rightarrow> s
      | Some x \<Rightarrow> s\<lparr>trace := trace s @ [Decref x]\<rparr>)"

subsection \<open>The callbacks\<close>

text \<open>
  Each callback is in two parts: \<open>_body\<close> runs from the first statement after the lock
  to the label \<^verbatim>\<open>cleanup\<close> and returns the local pointers with the state there; the
  callback itself takes the lock, runs the body, does what follows the label and lets
  the lock go. The abort follows \<^verbatim>\<open>PyErr_Print\<close> and the dropping of the references follows
  both, so they run only when \<^verbatim>\<open>PyErr_Print\<close> has returned; when it has ended the process,
  the callback ends in that state.
\<close>

definition registered_body ::
  "ProxyExecutor \<Rightarrow> 'h world \<Rightarrow> bytes \<Rightarrow> bytes \<Rightarrow> bytes \<Rightarrow> 'h pystate \<Rightarrow>
     (obj option \<times> obj option \<times> obj option \<times> obj option) \<times> 'h pystate" where
  "registered_body this w executorInfo frameworkInfo slaveInfo s0 =
     (case createPythonProtobuf w (ExecutorInfo executorInfo) ''ExecutorInfo'' s0 of
        (executorInfoObj, s1) \<Rightarrow>
     (case createPythonProtobuf w (FrameworkInfo frameworkInfo) ''FrameworkInfo'' s1 of
        (frameworkInfoObj, s2) \<Rightarrow>
     (case createPythonProtobuf w (SlaveInfo slaveInfo) ''SlaveInfo'' s2 of
        (slaveInfoObj, s3) \<Rightarrow>
     (case (executorInfoObj, frameworkInfoObj, slaveInfoObj) of
        (Some e, Some f, Some sl) \<Rightarrow>
          (case PyObject_CallMethod w (pythonExecutor (impl this)) ''registered'' ''OOOO''
                  [PyObj (address (impl this)), PyObj e, PyObj f, PyObj sl] s3 of
             (None, s4) \<Rightarrow>
               ((executorInfoObj, frameworkInfoObj, slaveInfoObj, None),
                cerr ''Failed to call executor registered'' s4)
           | (Some r, s4) \<Rightarrow>
               ((executorInfoObj, frameworkInfoObj, slaveInfoObj, Some r), s4))
      | _ \<Rightarrow> ((executorInfoObj, frameworkInfoObj, slaveInfoObj, None), s3)))))"

definition registered ::
  "ProxyExecutor \<Rightarrow> 'h world \<Rightarrow> driver \<Rightarrow> bytes \<Rightarrow> bytes \<Rightarrow> bytes \<Rightarrow> 'h pystate \<Rightarrow> 'h pystate"
  where
  "registered this w driver executorInfo frameworkInfo slaveInfo s =
     (case registered_body this w executorInfo frameworkInfo slaveInfo (InterpreterLock s) of
        ((executorInfoObj, frameworkInfoObj, slaveInfoObj, res), s1) \<Rightarrow>
          (case (if PyErr_Occurred s1
                then and_then (PyErr_Print w s1) (driver_abort driver)
                else Inr s1) of
             Inl s2 \<Rightarrow> s2
           | Inr s2 \<Rightarrow>
               InterpreterLock_destroy
                (Py_XDECREF res
                  (Py_XDECREF slaveInfoObj
                    (Py_XDECREF frameworkInfoObj
                      (Py_XDECREF executorInfoObj s2))))))"

definition reregistered_body ::
  "ProxyExecutor \<Rightarrow> 'h world \<Rightarrow> bytes \<Rightarrow> 'h pystate \<Rightarrow> (obj option \<times> obj option) \<times> 'h pystate"
  where
  "reregistered_body this w slaveInfo s0 =
     (case createPythonProtobuf w (SlaveInfo slaveInfo) ''SlaveInfo'' s0 of
        (None, s1) \<Rightarrow> ((None, None), s1)
      | (Some sl, s1) \<Rightarrow>
          (case PyObject_CallMethod w (pythonExecutor (impl this)) ''reregistered'' ''OO''
                  [PyObj (address (impl this)), PyObj sl] s1 of
             (None, s2) \<Rightarrow>
               ((Some sl, None), cerr ''Failed to call executor re-registered'' s2)
           | (Some r, s2) \<Rightarrow> ((Some sl, Some r), s2)))"

definition reregistered ::
  "ProxyExecutor \<Rightarrow> 'h world \<Rightarrow> driver \<Rightarrow> bytes \<Rightarrow> 'h pystate \<Rightarrow> 'h pystate"
  where
  "reregistered this w driver slaveInfo s =
     (case reregistered_body this w slaveInfo (InterpreterLock s) of
        ((slaveInfoObj, res), s1) \<Rightarrow>
          (case (if PyErr_Occurred s1
                then and_then (PyErr_Print w s1) (driver_abort driver)
                else Inr s1) of
             Inl s2 \<Rightarrow> s2
           | Inr s2 \<Rightarrow>
               InterpreterLock_destroy
                (Py_XDECREF res
                  (Py_XDECREF slaveInfoObj s2))))"

definition disconnected_body ::
  "ProxyExecutor \<Rightarrow> 'h world \<Rightarrow> 'h pystate \<Rightarrow> obj option \<times> 'h pystate" where
  "disconnected_body this w s0 =
     (case PyObject_CallMethod w (pythonExecutor (impl this)) ''disconnected'' ''O''
             [PyObj (address (impl this))] s0 of
        (None, s1) \<Rightarrow> (None, cerr ''Failed to call executor's disconnected'' s1)
      | (Some r, s1) \<Rightarrow> (Some r, s1))"

definition disconnected ::
  "ProxyExecutor \<Rightarrow> 'h world \<Rightarrow> driver \<Rightarrow> 'h pystate \<Rightarrow> 'h pystate"
  where
  "disconnected this w driver s =
     (case disconnected_body this w (InterpreterLock s) of
        (res, s1) \<Rightarrow>
          (case (if PyErr_Occurred s1
                then and_then (PyErr_Print w s1) (driver_abort driver)
                else Inr s1) of
             Inl s2 \<Rightarrow> s2
           | Inr s2 \<Rightarrow>
               InterpreterLock_destroy
                (Py_XDECREF res s2)))"

definition launchTask_body ::
  "ProxyExecutor \<Rightarrow> 'h world \<Rightarrow> bytes \<Rightarrow> 'h pystate \<Rightarrow> (obj option \<times> obj option) \<times> 'h pystate"
  where
  "launchTask_body this w task s0 =
     (case createPythonProtobuf w (TaskInfo task) ''TaskInfo'' s0 of
        (None, s1) \<Rightarrow> ((None, None), s1)
      | (Some t, s1) \<Rightarrow>
          (case PyObject_CallMethod w (pythonExecutor (impl this)) ''launchTask'' ''OO''
                  [PyObj (address (impl this)), PyObj t] s1 of
             (None, s2) \<Rightarrow>
               ((Some t, None), cerr ''Failed to call executor's launchTask'' s2)
           | (Some r, s2) \<Rightarrow> ((Some t, Some r), s2)))"

definition launchTask ::
  "ProxyExecutor \<Rightarrow> 'h world \<Rightarrow> driver \<Rightarrow> bytes \<Rightarrow> 'h pystate \<Rightarrow> 'h pystate"
  where
  "launchTask this w driver task s =
     (case launchTask_body this w task (InterpreterLock s) of
        ((taskObj, res), s1) \<Rightarrow>
          (case (if PyErr_Occurred s1
                then and_then (PyErr_Print w s1) (driver_abort driver)
                else Inr s1) of
             Inl s2 \<Rightarrow> s2
           | Inr s2 \<Rightarrow>
               InterpreterLock_destroy
                (Py_XDECREF res
                  (Py_XDECREF taskObj s2))))"

definition killTask_body ::
  "ProxyExecutor \<Rightarrow> 'h world \<Rightarrow> bytes \<Rightarrow> 'h pystate \<Rightarrow> (obj option \<times> obj option) \<times> 'h pystate"
  where
  "killTask_body this w taskId s0 =
     (case createPythonProtobuf w (TaskID taskId) ''TaskID'' s0 of
        (None, s1) \<Rightarrow> ((None, None), s1)
      | (Some t, s1) \<Rightarrow>
          (case PyObject_CallMethod w (pythonExecutor (impl this)) ''killTask'' ''OO''
                  [PyObj (address (impl this)), PyObj t] s1 of
             (None, s2) \<Rightarrow>
               ((Some t, None), cerr ''Failed to call executor's killTask'' s2)
           | (Some r, s2) \<Rightarrow> ((Some t, Some r), s2)))"

definition killTask ::
  "ProxyExecutor \<Rightarrow> 'h world \<Rightarrow> driver \<Rightarrow> bytes \<Rightarrow> 'h pystate \<Rightarrow> 'h pystate"
  where
  "killTask this w driver taskId s =
     (case killTask_body this w taskId (InterpreterLock s) of
        ((taskIdObj, res), s1) \<Rightarrow>
          (case (if PyErr_Occurred s1
                then and_then (PyErr_Print w s1) (driver_abort driver)
                else Inr s1) of
             Inl s2 \<Rightarrow> s2
           | Inr s2 \<Rightarrow>
               InterpreterLock_destroy
                (Py_XDECREF res
                  (Py_XDECREF taskIdObj s2))))"

definition frameworkMessage_body ::
  "ProxyExecutor \<Rightarrow> 'h world \<Rightarrow> bytes \<Rightarrow> 'h pystate \<Rightarrow> obj option \<times> 'h pystate" where
  "frameworkMessage_body this w data s0 =
     (case PyObject_CallMethod w (pythonExecutor (impl this)) ''frameworkMessage'' ''Os#''
             [PyObj (address (impl this)), CharPtr (string_data data), Size (of_nat (length data))] s0 of
        (None, s1) \<Rightarrow> (None, cerr ''Failed to call executor's frameworkMessage'' s1)
      | (Some r, s1) \<Rightarrow> (Some r, s1))"

definition frameworkMessage ::
  "ProxyExecutor \<Rightarrow> 'h world \<Rightarrow> driver \<Rightarrow> bytes \<Rightarrow> 'h pystate \<Rightarrow> 'h pystate"
  where
  "frameworkMessage this w driver data s =
     (case frameworkMessage_body this w data (InterpreterLock s) of
        (res, s1) \<Rightarrow>
          (case (if PyErr_Occurred s1
                then and_then (PyErr_Print w s1) (driver_abort driver)
                else Inr s1) of
             Inl s2 \<Rightarrow> s2
           | Inr s2 \<Rightarrow>
               InterpreterLock_destroy
                (Py_XDECREF res s2)))"

definition shutdown_body ::
  "ProxyExecutor \<Rightarrow> 'h world \<Rightarrow> 'h pystate \<Rightarrow> obj option \<times> 'h pystate" where
  "shutdown_body this w s0 =
     (case PyObject_CallMethod w (pythonExecutor (impl this)) ''shutdown'' ''O''
             [PyObj (address (impl this))] s0 of
        (None, s1) \<Rightarrow> (None, cerr ''Failed to call executor's shutdown'' s1)
      | (Some r, s1) \<Rightarrow> (Some r, s1))"

definition shutdown ::
  "ProxyExecutor \<Rightarrow> 'h world \<Rightarrow> driver \<Rightarrow> 'h pystate \<Rightarrow> 'h pystate"
  where
  "shutdown this w driver s =
     (case shutdown_body this w (InterpreterLock s) of
        (res, s1) \<Rightarrow>
          (case (if PyErr_Occurred s1
                then and_then (PyErr_Print w s1) (driver_abort driver)
                else Inr s1) of
             Inl s2 \<Rightarrow> s2
           | Inr s2 \<Rightarrow>
               InterpreterLock_destroy
                (Py_XDECREF res s2)))"

definition error_body ::
  "ProxyExecutor \<Rightarrow> 'h world \<Rightarrow> bytes \<Rightarrow> 'h pystate \<Rightarrow> obj option \<times> 'h pystate" where
  "error_body this w message s0 =
     (case PyObject_CallMethod w (pythonExecutor (impl this)) ''error'' ''Os#''
             [PyObj (address (impl this)), CharPtr (string_data message), Size (of_nat (length message))]
             s0 of
        (None, s1) \<Rightarrow> (None, cerr ''Failed to call executor's error'' s1)
      | (Some r, s1) \<Rightarrow> (Some r, s1))"

definition error ::
  "ProxyExecutor \<Rightarrow> 'h world \<Rightarrow> driver \<Rightarrow> bytes \<Rightarrow> 'h pystate \<Rightarrow> 'h pystate"
  where
  "error this w driver message s =
     (case error_body this w message (InterpreterLock s) of
        (res, s1) \<Rightarrow>
          (case (if PyErr_Occurred s1 then PyErr_Print w s1 else Inr s1) of
             Inl s2 \<Rightarrow> s2
           | Inr s2 \<Rightarrow>
               InterpreterLock_destroy
                (Py_XDECREF res s2)))"

subsection \<open>The callbacks as one function of the event delivered\<close>

text \<open>
  An event is the callback the driver makes with its arguments (the driver pointer apart):
  \<open>Registered\<close> carries the \<^verbatim>\<open>ExecutorInfo\<close>, the \<^verbatim>\<open>FrameworkInfo\<close> and the
  \<^verbatim>\<open>SlaveInfo\<close>, \<open>Reregistered\<close> the \<^verbatim>\<open>SlaveInfo\<close>, \<open>LaunchTask\<close> the \<^verbatim>\<open>TaskInfo\<close>,
  \<open>KillTask\<close> the \<^verbatim>\<open>TaskID\<close>, \<open>FrameworkMessage\<close> and \<open>Error\<close> the string.
\<close>

datatype event =
    Registered bytes bytes bytes
  | Reregistered bytes
  | Disconnected
  | LaunchTask bytes
  | KillTask bytes
  | FrameworkMessage bytes
  | Shutdown
  | Error bytes

fun callback :: "ProxyExecutor \<Rightarrow> 'h world \<Rightarrow> driver \<Rightarrow> event \<Rightarrow> 'h pystate \<Rightarrow> 'h pystate" where
  "callback this w d (Registered e f sl) s = registered this w d e f sl s"
| "callback this w d (Reregistered sl) s = reregistered this w d sl s"
| "callback this w d Disconnected s = disconnected this w d s"
| "callback this w d (LaunchTask t) s = launchTask this w d t s"
| "callback this w d (KillTask t) s = killTask this w d t s"
| "callback this w d (FrameworkMessage m) s = frameworkMessage this w d m s"
| "callback this w d Shutdown s = shutdown this w d s"
| "callback this w d (Error m) s = error this w d m s"

text \<open>The state in which a callback reaches its label \<^verbatim>\<open>cleanup\<close>.\<close>

fun at_cleanup :: "ProxyExecutor \<Rightarrow> 'h world \<Rightarrow> event \<Rightarrow> 'h pystate \<Rightarrow> 'h pystate" where
  "at_cleanup this w (Registered e f sl) s =
     snd (registered_body this w e f sl (InterpreterLock s))"
| "at_cleanup this w (Reregistered sl) s = snd (reregistered_body this w sl (InterpreterLock s))"
| "at_cleanup this w Disconnected s = snd (disconnected_body this w (InterpreterLock s))"
| "at_cleanup this w (LaunchTask t) s = snd (launchTask_body this w t (InterpreterLock s))"
| "at_cleanup this w (KillTask t) s = snd (killTask_body this w t (InterpreterLock s))"
| "at_cleanup this w (FrameworkMessage m) s =
     snd (frameworkMessage_body this w m (InterpreterLock s))"
| "at_cleanup this w Shutdown s = snd (shutdown_body this w (InterpreterLock s))"
| "at_cleanup this w (Error m) s = snd (error_body this w m (InterpreterLock s))"

text \<open>
  The callbacks the driver delivers over the life of the proxy, one after the other, as
  long as the process lives.
\<close>

fun run ::
  "ProxyExecutor \<Rightarrow> 'h world \<Rightarrow> (driver \<times> event) list \<Rightarrow> 'h pystate \<Rightarrow> 'h pystate" where
  "run this w [] s = s"
| "run this w ((d, ev) # evs) s =
     (if exited (callback this w d ev s) then callback this w d ev s
      else run this w evs (callback this w d ev s))"

fun is_error :: "event \<Rightarrow> bool" where
  "is_error (Error m) = True"
| "is_error ev = False"

text \<open>The name of the handler method of an event, as the callback spells it.\<close>

fun method_name :: "event \<Rightarrow> string" where
  "method_name (Registered e f sl) = ''registered''"
| "method_name (Reregistered sl) = ''reregistered''"
| "method_name Disconnected = ''disconnected''"
| "method_name (LaunchTask t) = ''launchTask''"
| "method_name (KillTask t) = ''killTask''"
| "method_name (FrameworkMessage m) = ''frameworkMessage''"
| "method_name Shutdown = ''shutdown''"
| "method_name (Error m) = ''error''"

subsection \<open>Reading a trace\<close>

text \<open>What was appended to the trace between two states.\<close>

definition emitted :: "'h pystate \<Rightarrow> 'h pystate \<Rightarrow> action list" where
  "emitted s s' = drop (length (trace s)) (trace s')"

fun is_abort :: "action \<Rightarrow> bool" where
  "is_abort (Abort d) = True"
| "is_abort a = False"

fun is_print :: "action \<Rightarrow> bool" where
  "is_print (Print e) = True"
| "is_print a = False"

fun is_cerr :: "action \<Rightarrow> bool" where
  "is_cerr (Cerr l) = True"
| "is_cerr a = False"

fun is_release :: "action \<Rightarrow> bool" where
  "is_release (Decref x) = True"
| "is_release Release = True"
| "is_release a = False"

fun is_exit :: "action \<Rightarrow> bool" where
  "is_exit Exit = True"
| "is_exit a = False"

text \<open>A step that returned NULL: a failed marshalling or a failed method call.\<close>

fun failed_marshal :: "action \<Rightarrow> bool" where
  "failed_marshal (Marshal n None) = True"
| "failed_marshal a = False"

fun failed_invoke :: "action \<Rightarrow> bool" where
  "failed_invoke (Invoke t n as None) = True"
| "failed_invoke a = False"

text \<open>
  The new references the steps of a trace returned, those among them that come from
  marshalling, and the method calls made, each in order.
\<close>

fun created :: "action list \<Rightarrow> obj list" where
  "created [] = []"
| "created (Marshal n (Some x) # as) = x # created as"
| "created (Invoke t n args (Some x) # as) = x # created as"
| "created (a # as) = created as"

fun marshalled :: "action list \<Rightarrow> obj list" where
  "marshalled [] = []"
| "marshalled (Marshal n (Some x) # as) = x # marshalled as"
| "marshalled (a # as) = marshalled as"

fun invocations :: "action list \<Rightarrow> (obj \<times> string \<times> pyarg list) list" where
  "invocations [] = []"
| "invocations (Invoke t n args r # as) = (t, n, args) # invocations as"
| "invocations (a # as) = invocations as"

text \<open>
  Reading a trace from the left with the references held so far: every reference a step
  returns is held from then on, a \<open>Decref\<close> must find its object held and lets one
  reference to it go, and at the end nothing is held.
\<close>

fun all_released :: "obj list \<Rightarrow> action list \<Rightarrow> bool" where
  "all_released held [] = (held = [])"
| "all_released held (Marshal n (Some x) # as) = all_released (held @ [x]) as"
| "all_released held (Invoke t n args (Some x) # as) = all_released (held @ [x]) as"
| "all_released held (Decref x # as) = (x \<in> set held \<and> all_released (remove1 x held) as)"
| "all_released held (a # as) = all_released held as"

text \<open>The type names of the marshalling steps of a trace, in order.\<close>

fun marshal_names :: "action list \<Rightarrow> string list" where
  "marshal_names [] = []"
| "marshal_names (Marshal n r # as) = n # marshal_names as"
| "marshal_names (a # as) = marshal_names as"

text \<open>
  The type names each callback gives to \<^verbatim>\<open>createPythonProtobuf\<close>, in the order of its calls.
\<close>

fun marshal_types :: "event \<Rightarrow> string list" where
  "marshal_types (Registered e f sl) = [''ExecutorInfo'', ''FrameworkInfo'', ''SlaveInfo'']"
| "marshal_types (Reregistered sl) = [''SlaveInfo'']"
| "marshal_types (LaunchTask t) = [''TaskInfo'']"
| "marshal_types (KillTask t) = [''TaskID'']"
| "marshal_types ev = []"

text \<open>
  The arguments of the handler method after the first: the string that \<^verbatim>\<open>s#\<close> builds
  from the message, or the objects marshalled, in the order they were marshalled.
\<close>

fun payload :: "event \<Rightarrow> action list \<Rightarrow> pyarg list" where
  "payload (FrameworkMessage m) as = [ArgString (s_hash (string_data m) (of_nat (length m)))]"
| "payload (Error m) as = [ArgString (s_hash (string_data m) (of_nat (length m)))]"
| "payload ev as = map ArgObject (marshalled as)"

subsection \<open>What the runtime answers to a callback\<close>

text \<open>
  The answers of the marshaller and of the handler to the questions a callback puts to
  them, read from the world alone and not from the callbacks: the statements below take
  their premises from here.

  \<open>event_messages\<close> are the messages an event has marshalled, with the type names, in
  order; \<open>marshal_results\<close> are the marshaller's results for them, one after the other,
  each in the runtime the one before has left, and \<open>marshal_runtime\<close> is the runtime
  after the last.
\<close>

definition runtime_of :: "'h pystate \<Rightarrow> 'h runtime" where
  "runtime_of s = (indicator s, heap s)"

fun event_messages :: "event \<Rightarrow> (message \<times> string) list" where
  "event_messages (Registered e f sl) =
     [(ExecutorInfo e, ''ExecutorInfo''), (FrameworkInfo f, ''FrameworkInfo''),
      (SlaveInfo sl, ''SlaveInfo'')]"
| "event_messages (Reregistered sl) = [(SlaveInfo sl, ''SlaveInfo'')]"
| "event_messages (LaunchTask t) = [(TaskInfo t, ''TaskInfo'')]"
| "event_messages (KillTask t) = [(TaskID t, ''TaskID'')]"
| "event_messages ev = []"

fun marshal_results :: "'h world \<Rightarrow> (message \<times> string) list \<Rightarrow> 'h runtime \<Rightarrow> obj option list"
  where
  "marshal_results w [] p = []"
| "marshal_results w ((m, t) # ms) p =
     fst (marshaller w m t p) # marshal_results w ms (snd (marshaller w m t p))"

fun marshal_runtime :: "'h world \<Rightarrow> (message \<times> string) list \<Rightarrow> 'h runtime \<Rightarrow> 'h runtime"
  where
  "marshal_runtime w [] p = p"
| "marshal_runtime w ((m, t) # ms) p = marshal_runtime w ms (snd (marshaller w m t p))"

text \<open>A marshalling step of the event returns NULL.\<close>

definition marshal_fails :: "'h world \<Rightarrow> event \<Rightarrow> 'h pystate \<Rightarrow> bool" where
  "marshal_fails w ev s = (None \<in> set (marshal_results w (event_messages ev) (runtime_of s)))"

text \<open>The last marshalling step of the event returns NULL.\<close>

definition last_marshal_fails :: "'h world \<Rightarrow> event \<Rightarrow> 'h pystate \<Rightarrow> bool" where
  "last_marshal_fails w ev s =
     (event_messages ev \<noteq> [] \<and>
      last (marshal_results w (event_messages ev) (runtime_of s)) = None)"

fun objects :: "obj option list \<Rightarrow> obj list" where
  "objects [] = []"
| "objects (None # rs) = objects rs"
| "objects (Some x # rs) = x # objects rs"

text \<open>
  The arguments of the handler method of an event: the driver object of the proxy, then
  the string built from the message or the marshalled objects.
\<close>

fun handler_args :: "ProxyExecutor \<Rightarrow> event \<Rightarrow> obj list \<Rightarrow> pyarg list" where
  "handler_args this (FrameworkMessage m) xs =
     [ArgObject (address (impl this)), ArgString (s_hash (string_data m) (of_nat (length m)))]"
| "handler_args this (Error m) xs =
     [ArgObject (address (impl this)), ArgString (s_hash (string_data m) (of_nat (length m)))]"
| "handler_args this ev xs = ArgObject (address (impl this)) # map ArgObject xs"

text \<open>
  The handler's answer to the method call of the event, made after the marshalling, and
  the exception pending when all steps are done: the one the marshalling has left when a
  step of it failed (no call is made then), else the one the call has left.
\<close>

definition handler_call :: "ProxyExecutor \<Rightarrow> 'h world \<Rightarrow> event \<Rightarrow> 'h pystate \<Rightarrow> obj option \<times> 'h runtime"
  where
  "handler_call this w ev s =
     handler w (pythonExecutor (impl this)) (method_name ev)
       (handler_args this ev (objects (marshal_results w (event_messages ev) (runtime_of s))))
       (marshal_runtime w (event_messages ev) (runtime_of s))"

definition call_fails :: "ProxyExecutor \<Rightarrow> 'h world \<Rightarrow> event \<Rightarrow> 'h pystate \<Rightarrow> bool" where
  "call_fails this w ev s = (\<not> marshal_fails w ev s \<and> fst (handler_call this w ev s) = None)"

definition pending :: "ProxyExecutor \<Rightarrow> 'h world \<Rightarrow> event \<Rightarrow> 'h pystate \<Rightarrow> pyerr option" where
  "pending this w ev s =
     (if marshal_fails w ev s then fst (marshal_runtime w (event_messages ev) (runtime_of s))
      else fst (snd (handler_call this w ev s)))"

text \<open>
  What the callbacks expect of the code they call, as the comment
  \<^verbatim>\<open>createPythonProtobuf will have set an exception\<close> says it: a marshalling step that
  returns NULL leaves an exception pending, and so does a method call that returns NULL.
\<close>

definition null_sets_exception :: "'h world \<Rightarrow> bool" where
  "null_sets_exception w =
     ((\<forall>m t p. fst (marshaller w m t p) = None \<longrightarrow> fst (snd (marshaller w m t p)) \<noteq> None) \<and>
      (\<forall>tg n as p. fst (handler w tg n as p) = None \<longrightarrow> fst (snd (handler w tg n as p)) \<noteq> None))"

subsection \<open>The shape of a callback's trace\<close>

text \<open>The line a callback writes to \<^verbatim>\<open>cerr\<close> when its method call returns NULL.\<close>

fun failure_line :: "event \<Rightarrow> string" where
  "failure_line (Registered e f sl) = ''Failed to call executor registered''"
| "failure_line (Reregistered sl) = ''Failed to call executor re-registered''"
| "failure_line Disconnected = ''Failed to call executor's disconnected''"
| "failure_line (LaunchTask t) = ''Failed to call executor's launchTask''"
| "failure_line (KillTask t) = ''Failed to call executor's killTask''"
| "failure_line (FrameworkMessage m) = ''Failed to call executor's frameworkMessage''"
| "failure_line Shutdown = ''Failed to call executor's shutdown''"
| "failure_line (Error m) = ''Failed to call executor's error''"

text \<open>What a callback appends to the trace up to its label \<^verbatim>\<open>cleanup\<close>.\<close>

definition body :: "ProxyExecutor \<Rightarrow> 'h world \<Rightarrow> event \<Rightarrow> 'h pystate \<Rightarrow> action list" where
  "body this w ev s = emitted s (at_cleanup this w ev s)"

fun marshal_steps :: "(message \<times> string) list \<Rightarrow> obj option list \<Rightarrow> action list" where
  "marshal_steps ((m, t) # ms) (r # rs) = Marshal t r # marshal_steps ms rs"
| "marshal_steps ms rs = []"

definition call_steps :: "ProxyExecutor \<Rightarrow> 'h world \<Rightarrow> event \<Rightarrow> 'h pystate \<Rightarrow> action list" where
  "call_steps this w ev s =
     (if marshal_fails w ev s then []
      else Invoke (pythonExecutor (impl this)) (method_name ev)
             (handler_args this ev (objects (marshal_results w (event_messages ev) (runtime_of s))))
             (fst (handler_call this w ev s))
           # (case fst (handler_call this w ev s) of
                None \<Rightarrow> [Cerr (failure_line ev)]
              | Some r \<Rightarrow> []))"

text \<open>
  What follows the label \<^verbatim>\<open>cleanup\<close>, for the exception \<open>e\<close> pending there and the
  references \<open>xs\<close> the callback holds: the exit of the process, or the traceback, the abort
  (unless the callback is \<^verbatim>\<open>error\<close>, which is \<open>quiet\<close>) and the releases.
\<close>

definition cleanup_actions ::
  "'h world \<Rightarrow> bool \<Rightarrow> driver \<Rightarrow> obj list \<Rightarrow> pyerr option \<Rightarrow> action list" where
  "cleanup_actions w quiet d xs e =
     (case e of
        None \<Rightarrow> map Decref xs @ [Release]
      | Some x \<Rightarrow>
          if exits w x then [Exit]
          else Print x # (if quiet then [] else [Abort d]) @ map Decref xs @ [Release])"

text \<open>
  The local pointers of a callback at its label \<^verbatim>\<open>cleanup\<close>, in the order in which they
  are released, and what every callback does from the label on, written once.
\<close>

fun locals :: "ProxyExecutor \<Rightarrow> 'h world \<Rightarrow> event \<Rightarrow> 'h pystate \<Rightarrow> obj option list" where
  "locals this w (Registered e f sl) s =
     (case fst (registered_body this w e f sl (InterpreterLock s)) of
        (a, b, c, r) \<Rightarrow> [a, b, c, r])"
| "locals this w (Reregistered sl) s =
     (case fst (reregistered_body this w sl (InterpreterLock s)) of (a, r) \<Rightarrow> [a, r])"
| "locals this w Disconnected s = [fst (disconnected_body this w (InterpreterLock s))]"
| "locals this w (LaunchTask t) s =
     (case fst (launchTask_body this w t (InterpreterLock s)) of (a, r) \<Rightarrow> [a, r])"
| "locals this w (KillTask t) s =
     (case fst (killTask_body this w t (InterpreterLock s)) of (a, r) \<Rightarrow> [a, r])"
| "locals this w (FrameworkMessage m) s =
     [fst (frameworkMessage_body this w m (InterpreterLock s))]"
| "locals this w Shutdown s = [fst (shutdown_body this w (InterpreterLock s))]"
| "locals this w (Error m) s = [fst (error_body this w m (InterpreterLock s))]"

fun decref_all :: "obj option list \<Rightarrow> 'h pystate \<Rightarrow> 'h pystate" where
  "decref_all [] s = s"
| "decref_all (p # ps) s = decref_all ps (Py_XDECREF p s)"

definition finish ::
  "'h world \<Rightarrow> bool \<Rightarrow> driver \<Rightarrow> obj option list \<Rightarrow> 'h pystate \<Rightarrow> 'h pystate" where
  "finish w quiet d ps s1 =
     (case (if PyErr_Occurred s1
            then (if quiet then PyErr_Print w s1
                  else and_then (PyErr_Print w s1) (driver_abort d))
            else Inr s1) of
        Inl s2 \<Rightarrow> s2
      | Inr s2 \<Rightarrow> InterpreterLock_destroy (decref_all ps s2))"

text \<open>The two components of \<^verbatim>\<open>createPythonProtobuf\<close> and of \<^verbatim>\<open>PyObject_CallMethod\<close>, by name.\<close>

definition marshal_result :: "'h world \<Rightarrow> message \<Rightarrow> string \<Rightarrow> 'h pystate \<Rightarrow> obj option" where
  "marshal_result w m t s = fst (createPythonProtobuf w m t s)"

definition marshal_state :: "'h world \<Rightarrow> message \<Rightarrow> string \<Rightarrow> 'h pystate \<Rightarrow> 'h pystate" where
  "marshal_state w m t s = snd (createPythonProtobuf w m t s)"

definition call_result ::
  "'h world \<Rightarrow> obj \<Rightarrow> string \<Rightarrow> string \<Rightarrow> carg list \<Rightarrow> 'h pystate \<Rightarrow> obj option" where
  "call_result w tg n fmt cs s = fst (PyObject_CallMethod w tg n fmt cs s)"

definition call_state ::
  "'h world \<Rightarrow> obj \<Rightarrow> string \<Rightarrow> string \<Rightarrow> carg list \<Rightarrow> 'h pystate \<Rightarrow> 'h pystate" where
  "call_state w tg n fmt cs s = snd (PyObject_CallMethod w tg n fmt cs s)"

subsection \<open>Concrete inputs\<close>

text \<open>
  A proxy, a start state and worlds to run the callbacks in: one where everything
  succeeds; one where the handler has no method of the name; one where the messages
  \<^verbatim>\<open>ExecutorInfo\<close> and \<^verbatim>\<open>TaskInfo\<close> cannot be marshalled; one where the handler returns a
  result and leaves an exception pending all the same; one where the handler calls
  \<^verbatim>\<open>sys.exit\<close>; one where the handler returns a result and leaves \<^verbatim>\<open>SystemExit\<close> pending;
  and one where \<^verbatim>\<open>ExecutorInfo\<close> cannot be marshalled and the marshalling of the next
  message clears the exception.
\<close>

definition this0 :: ProxyExecutor where
  "this0 = \<lparr>impl = \<lparr>address = 8, pythonExecutor = 9\<rparr>\<rparr>"

definition s0 :: "unit pystate" where
  "s0 = \<lparr>indicator = None, heap = (), trace = [], exited = False\<rparr>"

fun fresh :: "message \<Rightarrow> obj" where
  "fresh (ExecutorInfo b) = 1"
| "fresh (FrameworkInfo b) = 2"
| "fresh (SlaveInfo b) = 3"
| "fresh (TaskInfo b) = 4"
| "fresh (TaskID b) = 5"

definition w_ok :: "unit world" where
  "w_ok = \<lparr>marshaller = (\<lambda>m t p. (Some (fresh m), p)),
           handler = (\<lambda>tg n as p. (Some 6, p)),
           Py_InspectFlag = False\<rparr>"

definition w_no_method :: "unit world" where
  "w_no_method =
     \<lparr>marshaller = (\<lambda>m t p. (Some (fresh m), p)),
      handler = (\<lambda>tg n as p. (None, (Some (PyException ''AttributeError''), snd p))),
      Py_InspectFlag = False\<rparr>"

definition w_bad_marshal :: "unit world" where
  "w_bad_marshal =
     \<lparr>marshaller = (\<lambda>m t p.
          if t = ''ExecutorInfo'' \<or> t = ''TaskInfo''
          then (None, (Some (PyException ''DecodeError''), snd p))
          else (Some (fresh m), p)),
      handler = (\<lambda>tg n as p. (Some 6, p)),
      Py_InspectFlag = False\<rparr>"

definition w_result_with_error :: "unit world" where
  "w_result_with_error =
     \<lparr>marshaller = (\<lambda>m t p. (Some (fresh m), p)),
      handler = (\<lambda>tg n as p. (Some 6, (Some (PyException ''RuntimeError''), snd p))),
      Py_InspectFlag = False\<rparr>"

definition w_exit :: "unit world" where
  "w_exit =
     \<lparr>marshaller = (\<lambda>m t p. (Some (fresh m), p)),
      handler = (\<lambda>tg n as p. (None, (Some SystemExit, snd p))),
      Py_InspectFlag = False\<rparr>"

definition w_result_with_exit :: "unit world" where
  "w_result_with_exit =
     \<lparr>marshaller = (\<lambda>m t p. (Some (fresh m), p)),
      handler = (\<lambda>tg n as p. (Some 6, (Some SystemExit, snd p))),
      Py_InspectFlag = False\<rparr>"

definition w_clear :: "unit world" where
  "w_clear =
     \<lparr>marshaller = (\<lambda>m t p.
          if t = ''ExecutorInfo'' then (None, (Some (PyException ''DecodeError''), snd p))
          else (Some (fresh m), (None, snd p))),
      handler = (\<lambda>tg n as p. (Some 6, p)),
      Py_InspectFlag = False\<rparr>"

section \<open>Lemmas about the primitives and the callbacks\<close>

lemmas prim_defs = InterpreterLock_def InterpreterLock_destroy_def createPythonProtobuf_def
  PyObject_CallMethod_def cerr_def PyErr_Occurred_def PyErr_Print_def driver_abort_def
  Py_XDECREF_def and_then_def exits_def
lemmas body_defs = registered_body_def reregistered_body_def disconnected_body_def
  launchTask_body_def killTask_body_def frameworkMessage_body_def shutdown_body_def
  error_body_def
lemmas cb_defs = registered_def reregistered_def disconnected_def launchTask_def
  killTask_def frameworkMessage_def shutdown_def error_def

lemma createPythonProtobuf_pair:
  "createPythonProtobuf w m t s = (marshal_result w m t s, marshal_state w m t s)"
  by (simp add: marshal_result_def marshal_state_def)

lemma PyObject_CallMethod_pair:
  "PyObject_CallMethod w tg n fmt cs s = (call_result w tg n fmt cs s, call_state w tg n fmt cs s)"
  by (simp add: call_result_def call_state_def)

lemma marshal_result_eq: "marshal_result w m t s = fst (marshaller w m t (runtime_of s))"
  by (simp add: marshal_result_def createPythonProtobuf_def runtime_of_def split: prod.split)

lemma call_result_eq:
  "call_result w tg n fmt cs s = fst (handler w tg n (build_value fmt cs) (runtime_of s))"
  by (simp add: call_result_def PyObject_CallMethod_def runtime_of_def Let_def split: prod.split)

lemma trace_marshal_state:
  "trace (marshal_state w m t s) = trace s @ [Marshal t (fst (marshaller w m t (runtime_of s)))]"
  by (simp add: marshal_state_def createPythonProtobuf_def runtime_of_def split: prod.split)

lemma trace_call_state:
  "trace (call_state w tg n fmt cs s) =
     trace s @ [Invoke tg n (build_value fmt cs)
                  (fst (handler w tg n (build_value fmt cs) (runtime_of s)))]"
  by (simp add: call_state_def PyObject_CallMethod_def runtime_of_def Let_def split: prod.split)

lemma runtime_of_marshal_state:
  "runtime_of (marshal_state w m t s) = snd (marshaller w m t (runtime_of s))"
  by (simp add: marshal_state_def createPythonProtobuf_def runtime_of_def split: prod.split)

lemma runtime_of_call_state:
  "runtime_of (call_state w tg n fmt cs s) = snd (handler w tg n (build_value fmt cs) (runtime_of s))"
  by (simp add: call_state_def PyObject_CallMethod_def runtime_of_def Let_def split: prod.split)

lemma exited_marshal_state: "exited (marshal_state w m t s) = exited s"
  by (simp add: marshal_state_def createPythonProtobuf_def split: prod.split)

lemma exited_call_state: "exited (call_state w tg n fmt cs s) = exited s"
  by (simp add: call_state_def PyObject_CallMethod_def Let_def split: prod.split)

lemma cerr_simps:
  "trace (cerr l s) = trace s @ [Cerr l]" "runtime_of (cerr l s) = runtime_of s"
  "exited (cerr l s) = exited s"
  by (simp_all add: cerr_def runtime_of_def)

lemma InterpreterLock_simps:
  "trace (InterpreterLock s) = trace s @ [Acquire]" "runtime_of (InterpreterLock s) = runtime_of s"
  "exited (InterpreterLock s) = exited s"
  by (simp_all add: InterpreterLock_def runtime_of_def)

lemma indicator_runtime_of: "indicator s = fst (runtime_of s)"
  by (simp add: runtime_of_def)

lemmas step_simps = createPythonProtobuf_pair PyObject_CallMethod_pair marshal_result_eq
  call_result_eq trace_marshal_state trace_call_state runtime_of_marshal_state
  runtime_of_call_state exited_marshal_state exited_call_state cerr_simps InterpreterLock_simps

lemma s_hash_small:
  assumes "length d < 2 ^ 31"
  shows "s_hash (string_data d) (of_nat (length d)) = d"
proof -
  have "(ucast (of_nat (length d) :: 64 word) :: 32 word) = of_nat (length d)"
    by (rule bit_word_eqI) (auto simp: bit_simps)
  moreover have "sint (of_nat (length d) :: 32 word) = int (length d)"
    using assms by (simp add: signed_of_nat signed_take_bit_int_eq_self)
  ultimately show ?thesis
    by (simp add: s_hash_def string_data_def)
qed

lemma build_value_O: "build_value ''O'' [PyObj a] = [ArgObject a]"
  by simp

lemma build_value_OO: "build_value ''OO'' [PyObj a, PyObj b] = [ArgObject a, ArgObject b]"
  by simp

lemma build_value_OOOO:
  "build_value ''OOOO'' [PyObj a, PyObj b, PyObj c, PyObj d]
     = [ArgObject a, ArgObject b, ArgObject c, ArgObject d]"
  by simp

lemma build_value_Os:
  "build_value ''Os#'' [PyObj a, CharPtr mem, Size n] = [ArgObject a, ArgString (s_hash mem n)]"
  by simp

lemmas build_simps = build_value_O build_value_OO build_value_OOOO build_value_Os

lemma body_prefix: "trace (at_cleanup this w ev s) = trace s @ body this w ev s"
  by (cases ev) (simp_all add: body_def emitted_def body_defs step_simps split: option.split)

lemma body_eq:
  "body this w ev s =
     Acquire # marshal_steps (event_messages ev)
                 (marshal_results w (event_messages ev) (runtime_of s))
       @ call_steps this w ev s"
  by (cases ev)
     (simp_all add: body_def emitted_def body_defs step_simps build_simps call_steps_def
        marshal_fails_def handler_call_def del: build_value.simps split: option.split)

lemma pending_at_cleanup: "indicator (at_cleanup this w ev s) = pending this w ev s"
  by (cases ev)
     (simp_all add: indicator_runtime_of body_defs step_simps build_simps pending_def
        marshal_fails_def handler_call_def del: build_value.simps split: option.split)

lemma callback_finish:
  "callback this w d ev s =
     finish w (is_error ev) d (locals this w ev s) (at_cleanup this w ev s)"
  by (cases ev) (simp_all add: cb_defs finish_def case_prod_beta cong: sum.case_cong)

lemma decref_all_simps:
  "trace (decref_all ps s) = trace s @ map Decref (objects ps)"
  "indicator (decref_all ps s) = indicator s"
  "exited (decref_all ps s) = exited s"
proof (induction ps arbitrary: s)
  case Nil
  {
    case 1 show ?case by simp
  next
    case 2 show ?case by simp
  next
    case 3 show ?case by simp
  }
next
  case (Cons p ps)
  {
    case 1 show ?case by (cases p) (simp_all add: Cons.IH Py_XDECREF_def)
  next
    case 2 show ?case by (cases p) (simp_all add: Cons.IH Py_XDECREF_def)
  next
    case 3 show ?case by (cases p) (simp_all add: Cons.IH Py_XDECREF_def)
  }
qed

lemma finish_trace:
  "trace (finish w quiet d ps s1) =
     trace s1 @ cleanup_actions w quiet d (objects ps) (indicator s1)"
  by (cases "indicator s1")
     (simp_all add: finish_def cleanup_actions_def and_then_def PyErr_Occurred_def
        PyErr_Print_def driver_abort_def InterpreterLock_destroy_def decref_all_simps)

lemma finish_indicator: "indicator (finish w quiet d ps s1) = None"
  by (cases "indicator s1")
     (simp_all add: finish_def and_then_def PyErr_Occurred_def
        PyErr_Print_def driver_abort_def InterpreterLock_destroy_def decref_all_simps)

lemma objects_Cons:
  "objects (r # rs) = (case r of None \<Rightarrow> [] | Some x \<Rightarrow> [x]) @ objects rs"
  by (cases r) simp_all

lemma created_Marshal:
  "created (Marshal n r # as) = (case r of None \<Rightarrow> [] | Some x \<Rightarrow> [x]) @ created as"
  by (cases r) simp_all

lemma created_Invoke:
  "created (Invoke t n args r # as) = (case r of None \<Rightarrow> [] | Some x \<Rightarrow> [x]) @ created as"
  by (cases r) simp_all

lemma locals_created: "objects (locals this w ev s) = created (body this w ev s)"
  by (cases ev)
     (simp_all add: body_def emitted_def body_defs step_simps objects_Cons created_Marshal
        created_Invoke del: build_value.simps split: option.split)

lemma callback_trace:
  "trace (callback this w d ev s) =
     trace s @ body this w ev s
       @ cleanup_actions w (is_error ev) d (created (body this w ev s)) (pending this w ev s)"
  by (simp add: callback_finish finish_trace body_prefix locals_created pending_at_cleanup)

lemma callback_indicator: "indicator (callback this w d ev s) = None"
  by (simp add: callback_finish finish_indicator)

lemma emitted_callback:
  "emitted s (callback this w d ev s) =
     body this w ev s
       @ cleanup_actions w (is_error ev) d (created (body this w ev s)) (pending this w ev s)"
  by (simp add: emitted_def callback_trace)

lemma created_append: "created (xs @ ys) = created xs @ created ys"
  by (induction xs rule: created.induct) simp_all

lemma invocations_append: "invocations (xs @ ys) = invocations xs @ invocations ys"
  by (induction xs rule: invocations.induct) simp_all

lemma marshalled_append: "marshalled (xs @ ys) = marshalled xs @ marshalled ys"
  by (induction xs rule: marshalled.induct) simp_all

lemma marshal_names_append: "marshal_names (xs @ ys) = marshal_names xs @ marshal_names ys"
  by (induction xs rule: marshal_names.induct) simp_all

lemma observe_decrefs:
  "created (map Decref xs) = [] \<and> invocations (map Decref xs) = [] \<and>
   marshalled (map Decref xs) = [] \<and> marshal_names (map Decref xs) = [] \<and>
   filter is_cerr (map Decref xs) = [] \<and>
   filter is_abort (map Decref xs) = [] \<and>
   filter is_print (map Decref xs) = [] \<and>
   filter is_exit (map Decref xs) = [] \<and>
   \<not> list_ex failed_marshal (map Decref xs) \<and>
   \<not> list_ex failed_invoke (map Decref xs)"
  by (induction xs) simp_all

lemma observe_cleanup:
  "created (cleanup_actions w q d xs e) = [] \<and>
   invocations (cleanup_actions w q d xs e) = [] \<and>
   marshalled (cleanup_actions w q d xs e) = [] \<and>
   marshal_names (cleanup_actions w q d xs e) = [] \<and>
   filter is_cerr (cleanup_actions w q d xs e) = [] \<and>
   \<not> list_ex failed_marshal (cleanup_actions w q d xs e) \<and>
   \<not> list_ex failed_invoke (cleanup_actions w q d xs e)"
  by (cases e)
     (simp_all add: cleanup_actions_def created_append invocations_append marshalled_append
        marshal_names_append observe_decrefs)

lemma cleanup_aborts:
  "filter is_abort (cleanup_actions w q d xs e) =
     (case e of
        None \<Rightarrow> []
      | Some x \<Rightarrow> if exits w x \<or> q then [] else [Abort d])"
  by (cases e) (simp_all add: cleanup_actions_def observe_decrefs)

lemma cleanup_prints:
  "filter is_print (cleanup_actions w q d xs e) =
     (case e of None \<Rightarrow> [] | Some x \<Rightarrow> if exits w x then [] else [Print x])"
  by (cases e) (simp_all add: cleanup_actions_def observe_decrefs)

lemma cleanup_exits:
  "filter is_exit (cleanup_actions w q d xs e) =
     (case e of None \<Rightarrow> [] | Some x \<Rightarrow> if exits w x then [Exit] else [])"
  by (cases e) (simp_all add: cleanup_actions_def observe_decrefs)

lemma observe_marshal_steps:
  "invocations (marshal_steps ms (marshal_results w ms p)) = [] \<and>
   filter is_cerr (marshal_steps ms (marshal_results w ms p)) = [] \<and>
   filter is_abort (marshal_steps ms (marshal_results w ms p)) = [] \<and>
   filter is_print (marshal_steps ms (marshal_results w ms p)) = [] \<and>
   filter is_exit (marshal_steps ms (marshal_results w ms p)) = [] \<and>
   filter is_release (marshal_steps ms (marshal_results w ms p)) = [] \<and>
   \<not> list_ex failed_invoke (marshal_steps ms (marshal_results w ms p)) \<and>
   list_ex failed_marshal (marshal_steps ms (marshal_results w ms p))
     = (None \<in> set (marshal_results w ms p)) \<and>
   marshal_names (marshal_steps ms (marshal_results w ms p)) = map snd ms \<and>
   marshalled (marshal_steps ms (marshal_results w ms p)) = objects (marshal_results w ms p) \<and>
   created (marshal_steps ms (marshal_results w ms p)) = objects (marshal_results w ms p)"
proof (induction ms arbitrary: p)
  case Nil
  show ?case by simp
next
  case (Cons a ms)
  obtain m t where a: "a = (m, t)" by (cases a)
  from Cons.IH [of "snd (marshaller w m t p)"] show ?case
    by (cases "fst (marshaller w m t p)") (auto simp: a)
qed

lemma observe_call_steps:
  "invocations (call_steps this w ev s) =
     (if marshal_fails w ev s then []
      else [(pythonExecutor (impl this), method_name ev,
             handler_args this ev
               (objects (marshal_results w (event_messages ev) (runtime_of s))))]) \<and>
   filter is_cerr (call_steps this w ev s) =
     (if call_fails this w ev s then [Cerr (failure_line ev)] else []) \<and>
   filter is_abort (call_steps this w ev s) = [] \<and>
   filter is_print (call_steps this w ev s) = [] \<and>
   filter is_exit (call_steps this w ev s) = [] \<and>
   filter is_release (call_steps this w ev s) = [] \<and>
   \<not> list_ex failed_marshal (call_steps this w ev s) \<and>
   list_ex failed_invoke (call_steps this w ev s) = call_fails this w ev s \<and>
   marshal_names (call_steps this w ev s) = [] \<and>
   marshalled (call_steps this w ev s) = []"
  by (cases "fst (handler_call this w ev s)") (simp_all add: call_steps_def call_fails_def)

lemma names_of_messages: "map snd (event_messages ev) = marshal_types ev"
  by (cases ev) simp_all

lemma body_quiet:
  "filter is_abort (body this w ev s) = [] \<and> filter is_print (body this w ev s) = [] \<and>
   filter is_release (body this w ev s) = [] \<and> filter is_exit (body this w ev s) = []"
  by (simp add: body_eq observe_marshal_steps observe_call_steps)

lemma body_invocations:
  "invocations (body this w ev s) =
     (if marshal_fails w ev s then []
      else [(pythonExecutor (impl this), method_name ev,
             handler_args this ev
               (objects (marshal_results w (event_messages ev) (runtime_of s))))])"
  by (simp add: body_eq invocations_append observe_marshal_steps observe_call_steps)

lemma body_failed_marshal: "list_ex failed_marshal (body this w ev s) = marshal_fails w ev s"
  by (simp add: body_eq observe_marshal_steps observe_call_steps marshal_fails_def)



lemma body_marshal_names: "marshal_names (body this w ev s) = marshal_types ev"
  by (simp add: body_eq marshal_names_append observe_marshal_steps observe_call_steps
      names_of_messages)

lemma body_marshalled:
  "marshalled (body this w ev s) = objects (marshal_results w (event_messages ev) (runtime_of s))"
  by (simp add: body_eq marshalled_append observe_marshal_steps observe_call_steps)

lemma handler_args_payload:
  "handler_args this ev (marshalled as) = ArgObject (address (impl this)) # payload ev as"
  by (cases ev) simp_all

lemma emitted_invocations:
  "invocations (emitted s (callback this w d ev s)) = invocations (body this w ev s)"
  by (simp add: emitted_callback invocations_append observe_cleanup)

lemma emitted_created:
  "created (emitted s (callback this w d ev s)) = created (body this w ev s)"
  by (simp add: emitted_callback created_append observe_cleanup)

lemma emitted_marshalled:
  "marshalled (emitted s (callback this w d ev s)) = marshalled (body this w ev s)"
  by (simp add: emitted_callback marshalled_append observe_cleanup)

lemma emitted_marshal_names:
  "marshal_names (emitted s (callback this w d ev s)) = marshal_types ev"
  by (simp add: emitted_callback marshal_names_append observe_cleanup body_marshal_names)

lemma emitted_failed_marshal:
  "list_ex failed_marshal (emitted s (callback this w d ev s)) = marshal_fails w ev s"
  by (simp add: emitted_callback observe_cleanup body_failed_marshal)


lemma emitted_aborts:
  "filter is_abort (emitted s (callback this w d ev s)) =
     (case pending this w ev s of
        None \<Rightarrow> []
      | Some x \<Rightarrow> if exits w x \<or> is_error ev then [] else [Abort d])"
  by (simp add: emitted_callback body_quiet cleanup_aborts)

lemma emitted_prints:
  "filter is_print (emitted s (callback this w d ev s)) =
     (case pending this w ev s of None \<Rightarrow> [] | Some x \<Rightarrow> if exits w x then [] else [Print x])"
  by (simp add: emitted_callback body_quiet cleanup_prints)

lemma emitted_exits:
  "filter is_exit (emitted s (callback this w d ev s)) =
     (case pending this w ev s of None \<Rightarrow> [] | Some x \<Rightarrow> if exits w x then [Exit] else [])"
  by (simp add: emitted_callback body_quiet cleanup_exits)


lemma payload_marshalled: "marshalled xs = marshalled ys \<Longrightarrow> payload ev xs = payload ev ys"
  by (cases ev) simp_all

lemma payload_emitted:
  "payload ev (emitted s (callback this w d ev s)) = payload ev (body this w ev s)"
  by (rule payload_marshalled) (rule emitted_marshalled)

lemma all_released_body:
  "filter is_release xs = [] \<Longrightarrow>
   all_released held (xs @ ys) = all_released (held @ created xs) ys"
proof (induction xs arbitrary: held)
  case Nil
  then show ?case by simp
next
  case (Cons a xs)
  from Cons.prems have rest: "filter is_release xs = []" and a: "\<not> is_release a"
    by (simp_all split: if_splits)
  note IH = Cons.IH [OF rest]
  show ?case
  proof (cases a)
    case (Marshal n r)
    then show ?thesis using IH by (cases r) simp_all
  next
    case (Invoke t n args r)
    then show ?thesis using IH by (cases r) simp_all
  next
    case (Decref x)
    then show ?thesis using a by simp
  next
    case Release
    then show ?thesis using a by simp
  qed (simp_all add: IH)
qed

lemma all_released_decrefs: "all_released xs (map Decref xs @ [Release])"
  by (induction xs) simp_all

lemma callback_prefix:
  "trace (callback this w d ev s) = trace s @ emitted s (callback this w d ev s)"
  by (simp add: emitted_def callback_trace)

lemma emitted_eq: "trace s' = trace s @ xs \<Longrightarrow> emitted s s' = xs"
  by (simp add: emitted_def)

lemma run_prefix: "trace (run this w evs s) = trace s @ emitted s (run this w evs s)"
proof (induction evs arbitrary: s)
  case Nil
  show ?case by (simp add: emitted_def)
next
  case (Cons p evs)
  obtain d ev where p: "p = (d, ev)" by (cases p)
  show ?case
  proof (cases "exited (callback this w d ev s)")
    case True
    then show ?thesis using callback_prefix [of this w d ev s]
      by (simp add: p emitted_def del: callback.simps)
  next
    case False
    have "trace (run this w evs (callback this w d ev s)) =
            trace s @ emitted s (callback this w d ev s)
              @ emitted (callback this w d ev s) (run this w evs (callback this w d ev s))"
      using Cons.IH [of "callback this w d ev s"] callback_prefix [of this w d ev s]
      by (simp del: callback.simps)
    then have step: "trace (run this w (p # evs) s) =
            trace s @ emitted s (callback this w d ev s)
              @ emitted (callback this w d ev s) (run this w evs (callback this w d ev s))"
      using False by (simp add: p del: callback.simps)
    from emitted_eq [OF step] step show ?thesis by simp
  qed
qed

lemma emitted_run_Cons:
  "emitted s (run this w ((d, ev) # evs) s) =
     emitted s (callback this w d ev s)
       @ (if exited (callback this w d ev s) then []
          else emitted (callback this w d ev s) (run this w evs (callback this w d ev s)))"
proof (cases "exited (callback this w d ev s)")
  case True
  then show ?thesis by (simp add: emitted_def del: callback.simps)
next
  case False
  have "trace (run this w evs (callback this w d ev s)) =
          trace s @ emitted s (callback this w d ev s)
            @ emitted (callback this w d ev s) (run this w evs (callback this w d ev s))"
    using run_prefix [of this w evs "callback this w d ev s"] callback_prefix [of this w d ev s]
    by (simp del: callback.simps)
  then have "trace (run this w ((d, ev) # evs) s) =
          trace s @ emitted s (callback this w d ev s)
            @ emitted (callback this w d ev s) (run this w evs (callback this w d ev s))"
    using False by (simp del: callback.simps)
  from emitted_eq [OF this] False show ?thesis by simp
qed

lemma self_first_callback:
  "\<forall>(t, n, args)\<in>set (invocations (emitted s (callback this w d ev s))).
      t = pythonExecutor (impl this) \<and> take 1 args = [ArgObject (address (impl this))]"
  by (cases ev) (simp_all add: emitted_invocations body_invocations del: callback.simps)

lemmas eval_defs = emitted_def cb_defs body_defs prim_defs this0_def s0_def string_data_def
  s_hash_def

lemmas world_defs = marshal_fails_def last_marshal_fails_def call_fails_def pending_def
  handler_call_def runtime_of_def exits_def null_sets_exception_def

lemma last_marshal_pending:
  assumes "\<forall>m t p. fst (marshaller w m t p) = None \<longrightarrow> fst (snd (marshaller w m t p)) \<noteq> None"
    and "ms \<noteq> []" and "last (marshal_results w ms p) = None"
  shows "fst (marshal_runtime w ms p) \<noteq> None"
  using assms(2,3)
proof (induction ms arbitrary: p)
  case Nil
  then show ?case by simp
next
  case (Cons a ms)
  obtain m t where a: "a = (m, t)" by (cases a)
  show ?case
  proof (cases "ms = []")
    case True
    with Cons.prems have "fst (marshaller w m t p) = None" by (simp add: a)
    with assms(1) have "fst (snd (marshaller w m t p)) \<noteq> None" by blast
    with True show ?thesis by (simp add: a del: not_None_eq)
  next
    case False
    then have "marshal_results w ms (snd (marshaller w m t p)) \<noteq> []"
      by (cases ms) auto
    with Cons.prems have "last (marshal_results w ms (snd (marshaller w m t p))) = None"
      by (simp add: a)
    from Cons.IH [OF False this] show ?thesis by (simp add: a)
  qed
qed

lemma last_fails_some_fails: "last_marshal_fails w ev s \<Longrightarrow> marshal_fails w ev s"
proof -
  assume l: "last_marshal_fails w ev s"
  then have "marshal_results w (event_messages ev) (runtime_of s) \<noteq> []"
    by (cases "event_messages ev") (auto simp: last_marshal_fails_def)
  with l show ?thesis
    unfolding last_marshal_fails_def marshal_fails_def using last_in_set by metis
qed

lemma contract_pending:
  assumes "null_sets_exception w" and "call_fails this w ev s \<or> last_marshal_fails w ev s"
  shows "pending this w ev s \<noteq> None"
proof (cases "marshal_fails w ev s")
  case True
  with assms(2) have l: "last_marshal_fails w ev s" by (simp add: call_fails_def)
  from assms(1)
  have "\<forall>m t p. fst (marshaller w m t p) = None \<longrightarrow> fst (snd (marshaller w m t p)) \<noteq> None"
    unfolding null_sets_exception_def by blast
  from last_marshal_pending [OF this] l True show ?thesis
    by (simp add: pending_def last_marshal_fails_def del: not_None_eq)
next
  case False
  with assms(2) last_fails_some_fails have "fst (handler_call this w ev s) = None"
    by (auto simp: call_fails_def)
  with assms(1) have "fst (snd (handler_call this w ev s)) \<noteq> None"
    unfolding handler_call_def null_sets_exception_def by blast
  with False show ?thesis
    by (simp add: pending_def del: not_None_eq)
qed

lemma no_abort_takeWhile:
  "filter is_abort xs = [] \<Longrightarrow> filter is_abort (takeWhile P xs) = []"
  by (auto simp: filter_empty_conv dest: set_takeWhileD)

section \<open>The claims\<close>



text \<open>
  C2, as the code has it. For every callback but \<^verbatim>\<open>error\<close>, when a marshalling step or
  the method call returns NULL: if an exception is pending at the label \<^verbatim>\<open>cleanup\<close> and
  it is not one on which \<^verbatim>\<open>PyErr_Print\<close> ends the process, the callback aborts the driver
  it was given exactly once; if it is such a one (\<^verbatim>\<open>SystemExit\<close>), the process exits in
  \<^verbatim>\<open>PyErr_Print\<close> and the driver is not aborted. In both cases at most one method call is
  made, and none when a marshalling step has failed. An exception is pending at the label
  whenever every NULL of the runtime leaves one pending and the step that failed is the
  method call or the last marshalling step of the event.
\<close>

theorem failure_aborts_once:
  assumes "\<not> is_error ev" and "marshal_fails w ev s \<or> call_fails this w ev s"
  shows "(\<forall>e. pending this w ev s = Some e \<and> \<not> exits w e \<longrightarrow>
            filter is_abort (emitted s (callback this w d ev s)) = [Abort d]) \<and>
         (\<forall>e. pending this w ev s = Some e \<and> exits w e \<longrightarrow>
            filter is_abort (emitted s (callback this w d ev s)) = [] \<and>
            filter is_exit (emitted s (callback this w d ev s)) = [Exit]) \<and>
         invocations (emitted s (callback this w d ev s)) =
           (if marshal_fails w ev s then []
            else [(pythonExecutor (impl this), method_name ev,
                   handler_args this ev
                     (objects (marshal_results w (event_messages ev) (runtime_of s))))]) \<and>
         (null_sets_exception w \<and> (call_fails this w ev s \<or> last_marshal_fails w ev s) \<longrightarrow>
            pending this w ev s \<noteq> None)"
proof -
  have one: "filter is_abort (emitted s (callback this w d ev s)) = [Abort d]"
    if "pending this w ev s = Some e" "\<not> exits w e" for e
    using that assms(1) by (simp only: emitted_aborts) simp
  have none: "filter is_abort (emitted s (callback this w d ev s)) = [] \<and>
              filter is_exit (emitted s (callback this w d ev s)) = [Exit]"
    if "pending this w ev s = Some e" "exits w e" for e
    using that by (simp only: emitted_aborts emitted_exits) simp
  have calls: "invocations (emitted s (callback this w d ev s)) =
           (if marshal_fails w ev s then []
            else [(pythonExecutor (impl this), method_name ev,
                   handler_args this ev
                     (objects (marshal_results w (event_messages ev) (runtime_of s))))])"
    by (simp only: emitted_invocations body_invocations)
  have set: "pending this w ev s \<noteq> None"
    if "null_sets_exception w" "call_fails this w ev s \<or> last_marshal_fails w ev s"
    using that by (rule contract_pending)
  from one none calls set show ?thesis by blast
qed

theorem failure_aborts_once_witness:
  "\<not> is_error (LaunchTask [1]) \<and> call_fails this0 w_no_method (LaunchTask [1]) s0 \<and>
   pending this0 w_no_method (LaunchTask [1]) s0 = Some (PyException ''AttributeError'') \<and>
   \<not> exits w_no_method (PyException ''AttributeError'') \<and>
   null_sets_exception w_no_method \<and>
   filter is_abort (emitted s0 (callback this0 w_no_method 7 (LaunchTask [1]) s0)) = [Abort 7] \<and>
   invocations (emitted s0 (callback this0 w_no_method 7 (LaunchTask [1]) s0)) =
     [(9, ''launchTask'', [ArgObject 8, ArgObject 4])] \<and>
   marshal_fails w_bad_marshal (LaunchTask [1]) s0 \<and>
   last_marshal_fails w_bad_marshal (LaunchTask [1]) s0 \<and>
   pending this0 w_bad_marshal (LaunchTask [1]) s0 = Some (PyException ''DecodeError'') \<and>
   filter is_abort (emitted s0 (callback this0 w_bad_marshal 7 (LaunchTask [1]) s0)) = [Abort 7] \<and>
   invocations (emitted s0 (callback this0 w_bad_marshal 7 (LaunchTask [1]) s0)) = [] \<and>
   call_fails this0 w_exit (LaunchTask [1]) s0 \<and>
   pending this0 w_exit (LaunchTask [1]) s0 = Some SystemExit \<and>
   exits w_exit SystemExit \<and>
   filter is_abort (emitted s0 (callback this0 w_exit 7 (LaunchTask [1]) s0)) = [] \<and>
   filter is_exit (emitted s0 (callback this0 w_exit 7 (LaunchTask [1]) s0)) = [Exit]"
proof -
  have e: "\<not> is_error (LaunchTask [1])" by simp
  have c1: "call_fails this0 w_no_method (LaunchTask [1]) s0"
    and p1: "pending this0 w_no_method (LaunchTask [1]) s0 = Some (PyException ''AttributeError'')"
    and x1: "\<not> exits w_no_method (PyException ''AttributeError'')"
    and n1: "null_sets_exception w_no_method"
    by (simp_all add: world_defs this0_def s0_def w_no_method_def)
  have c2: "marshal_fails w_bad_marshal (LaunchTask [1]) s0"
    and l2: "last_marshal_fails w_bad_marshal (LaunchTask [1]) s0"
    and p2: "pending this0 w_bad_marshal (LaunchTask [1]) s0 = Some (PyException ''DecodeError'')"
    and x2: "\<not> exits w_bad_marshal (PyException ''DecodeError'')"
    by (simp_all add: world_defs this0_def s0_def w_bad_marshal_def)
  have c3: "call_fails this0 w_exit (LaunchTask [1]) s0"
    and p3: "pending this0 w_exit (LaunchTask [1]) s0 = Some SystemExit"
    and x3: "exits w_exit SystemExit"
    by (simp_all add: world_defs this0_def s0_def w_exit_def)
  have a1: "address (impl this0) = 8" and a2: "pythonExecutor (impl this0) = 9"
    by (simp_all add: this0_def)
  from c1 failure_aborts_once [OF e, of w_no_method s0 this0 7]
  have r1: "filter is_abort (emitted s0 (callback this0 w_no_method 7 (LaunchTask [1]) s0))
              = [Abort 7] \<and>
            invocations (emitted s0 (callback this0 w_no_method 7 (LaunchTask [1]) s0)) =
              [(9, ''launchTask'', [ArgObject 8, ArgObject 4])]"
    using p1 x1 c1 by (simp add: call_fails_def a1 a2 w_no_method_def)
  from c2 failure_aborts_once [OF e, of w_bad_marshal s0 this0 7]
  have r2: "filter is_abort (emitted s0 (callback this0 w_bad_marshal 7 (LaunchTask [1]) s0))
              = [Abort 7] \<and>
            invocations (emitted s0 (callback this0 w_bad_marshal 7 (LaunchTask [1]) s0)) = []"
    using p2 x2 by simp
  from c3 failure_aborts_once [OF e, of w_exit s0 this0 7]
  have r3: "filter is_abort (emitted s0 (callback this0 w_exit 7 (LaunchTask [1]) s0)) = [] \<and>
            filter is_exit (emitted s0 (callback this0 w_exit 7 (LaunchTask [1]) s0)) = [Exit]"
    using p3 x3 by simp
  from e c1 p1 x1 n1 r1 c2 l2 p2 r2 c3 p3 x3 r3 show ?thesis by blast
qed

text \<open>
  C2, as the claim has it, fails: in \<^verbatim>\<open>launchTask\<close> with a handler that calls
  \<^verbatim>\<open>sys.exit\<close> the method call returns NULL and the process exits in \<^verbatim>\<open>PyErr_Print\<close>: the
  driver is not aborted. And in \<^verbatim>\<open>registered\<close>, when \<^verbatim>\<open>ExecutorInfo\<close> cannot be marshalled
  and the marshalling of the messages after it clears the exception, nothing is pending at
  the label, nothing is printed and the driver is not aborted.
\<close>

theorem failure_without_abort:
  "emitted s0 (launchTask this0 w_exit 7 [1] s0) =
     [Acquire,
      Marshal ''TaskInfo'' (Some 4),
      Invoke 9 ''launchTask'' [ArgObject 8, ArgObject 4] None,
      Cerr ''Failed to call executor's launchTask'',
      Exit] \<and>
   emitted s0 (registered this0 w_clear 7 [1] [2] [3] s0) =
     [Acquire,
      Marshal ''ExecutorInfo'' None,
      Marshal ''FrameworkInfo'' (Some 2),
      Marshal ''SlaveInfo'' (Some 3),
      Decref 2,
      Decref 3,
      Release]"
  by (simp add: eval_defs w_exit_def w_clear_def)

text \<open>
  C3, as the code has it. In every callback the handler method is not called when a
  marshalling step has returned NULL. \<^verbatim>\<open>registered\<close> does not stop at the first failure:
  it always marshals all three messages, in the order \<^verbatim>\<open>ExecutorInfo\<close>,
  \<^verbatim>\<open>FrameworkInfo\<close>, \<^verbatim>\<open>SlaveInfo\<close>, and checks the three results together afterwards.
  In \<^verbatim>\<open>launchTask\<close>, when the marshalling of the \<^verbatim>\<open>TaskInfo\<close> returns NULL and leaves an
  exception pending on which \<^verbatim>\<open>PyErr_Print\<close> does not end the process, the driver is
  aborted (once) and no method call is made.
\<close>

theorem marshal_failure_skips_handler:
  "((\<exists>a\<in>set (emitted s (callback this w d ev s)). failed_marshal a) \<longrightarrow>
      invocations (emitted s (callback this w d ev s)) = []) \<and>
   marshal_names (emitted s (registered this w d e f sl s))
     = [''ExecutorInfo'', ''FrameworkInfo'', ''SlaveInfo''] \<and>
   (\<forall>x h. marshaller w (TaskInfo t) ''TaskInfo'' (indicator s, heap s) = (None, Some x, h) \<and>
          \<not> exits w x \<longrightarrow>
      invocations (emitted s (launchTask this w d t s)) = [] \<and>
      filter is_abort (emitted s (launchTask this w d t s)) = [Abort d])"
proof -
  have skip: "(\<exists>a\<in>set (emitted s (callback this w d ev s)). failed_marshal a) \<longrightarrow>
      invocations (emitted s (callback this w d ev s)) = []"
    unfolding list_ex_iff [symmetric] emitted_failed_marshal emitted_invocations
    by (simp add: body_invocations)
  have names: "marshal_names (emitted s (registered this w d e f sl s))
     = [''ExecutorInfo'', ''FrameworkInfo'', ''SlaveInfo'']"
    using emitted_marshal_names [of s this w d "Registered e f sl"] by simp
  have launch: "invocations (emitted s (launchTask this w d t s)) = [] \<and>
      filter is_abort (emitted s (launchTask this w d t s)) = [Abort d]"
    if m: "marshaller w (TaskInfo t) ''TaskInfo'' (indicator s, heap s) = (None, Some x, h)"
      and x: "\<not> exits w x" for x h
  proof -
    from m have f: "marshal_fails w (LaunchTask t) s"
      and p: "pending this w (LaunchTask t) s = Some x"
      by (simp_all add: marshal_fails_def pending_def runtime_of_def)
    from f have "invocations (emitted s (callback this w d (LaunchTask t) s)) = []"
      by (simp only: emitted_invocations body_invocations) simp
    moreover from p x
    have "filter is_abort (emitted s (callback this w d (LaunchTask t) s)) = [Abort d]"
      by (simp only: emitted_aborts) simp
    ultimately show ?thesis by simp
  qed
  from skip names launch show ?thesis by blast
qed

theorem marshal_failure_skips_handler_witness:
  "(\<exists>a\<in>set (emitted s0 (callback this0 w_bad_marshal 7 (LaunchTask [1]) s0)). failed_marshal a) \<and>
   invocations (emitted s0 (callback this0 w_bad_marshal 7 (LaunchTask [1]) s0)) = [] \<and>
   marshaller w_bad_marshal (TaskInfo [1]) ''TaskInfo'' (indicator s0, heap s0)
     = (None, Some (PyException ''DecodeError''), ()) \<and>
   \<not> exits w_bad_marshal (PyException ''DecodeError'') \<and>
   invocations (emitted s0 (launchTask this0 w_bad_marshal 7 [1] s0)) = [] \<and>
   filter is_abort (emitted s0 (launchTask this0 w_bad_marshal 7 [1] s0)) = [Abort 7]"
proof -
  have g: "\<exists>a\<in>set (emitted s0 (callback this0 w_bad_marshal 7 (LaunchTask [1]) s0)).
      failed_marshal a"
    by (simp add: eval_defs w_bad_marshal_def)
  have m: "marshaller w_bad_marshal (TaskInfo [1]) ''TaskInfo'' (indicator s0, heap s0)
             = (None, Some (PyException ''DecodeError''), ())"
    by (simp add: w_bad_marshal_def s0_def)
  have x: "\<not> exits w_bad_marshal (PyException ''DecodeError'')"
    by (simp add: exits_def)
  from marshal_failure_skips_handler
         [of s0 this0 w_bad_marshal 7 "LaunchTask [1]" "[]" "[]" "[]" "[1]"]
       g m x
  show ?thesis by blast
qed

text \<open>
  C3, as the claim has it, fails: in \<^verbatim>\<open>registered\<close> the marshalling of \<^verbatim>\<open>ExecutorInfo\<close>
  returns NULL and the two other messages are marshalled after it.
\<close>

theorem registered_marshals_after_failure:
  "emitted s0 (registered this0 w_bad_marshal 7 [1] [2] [3] s0) =
     [Acquire,
      Marshal ''ExecutorInfo'' None,
      Marshal ''FrameworkInfo'' (Some 2),
      Marshal ''SlaveInfo'' (Some 3),
      Print (PyException ''DecodeError''),
      Abort 7,
      Decref 2,
      Decref 3,
      Release]"
  by (simp add: eval_defs w_bad_marshal_def)

text \<open>
  C4, as the code has it. In every callback and whatever its outcome: an exception pending
  at the label \<^verbatim>\<open>cleanup\<close> on which \<^verbatim>\<open>PyErr_Print\<close> does not end the process is printed
  exactly once, before any abort of the driver, and the callback returns (its last act is
  to let the lock go) with no exception pending; when no exception is pending nothing is
  printed and the callback returns as well. When the pending exception is one on which
  \<^verbatim>\<open>PyErr_Print\<close> ends the process (\<^verbatim>\<open>SystemExit\<close>), no traceback is printed and the
  callback does not return: the process exits, which is the last thing in its trace.
\<close>

theorem pending_failure_printed_once:
  "indicator (at_cleanup this w ev s) = pending this w ev s \<and>
   indicator (callback this w d ev s) = None \<and>
   filter is_print (emitted s (callback this w d ev s)) =
     (case pending this w ev s of
        None \<Rightarrow> []
      | Some e \<Rightarrow> if exits w e then [] else [Print e]) \<and>
   filter is_abort (takeWhile (\<lambda>a. \<not> is_print a) (emitted s (callback this w d ev s))) = [] \<and>
   last (emitted s (callback this w d ev s)) =
     (case pending this w ev s of
        None \<Rightarrow> Release
      | Some e \<Rightarrow> if exits w e then Exit else Release) \<and>
   filter is_exit (emitted s (callback this w d ev s)) =
     (case pending this w ev s of
        None \<Rightarrow> []
      | Some e \<Rightarrow> if exits w e then [Exit] else [])"
proof -
  let ?body = "body this w ev s"
  let ?tail = "cleanup_actions w (is_error ev) d (created ?body) (pending this w ev s)"
  have quiet: "\<forall>a\<in>set ?body. \<not> is_print a \<and> \<not> is_abort a"
    using body_quiet [of this w ev s] by (simp add: filter_empty_conv)
  have tail: "filter is_abort (takeWhile (\<lambda>a. \<not> is_print a) ?tail) = []"
  proof (cases "pending this w ev s")
    case None
    have "filter is_abort (map Decref (created ?body) @ [Release]) = []"
      by (simp add: observe_decrefs)
    then have "filter is_abort
                 (takeWhile (\<lambda>a. \<not> is_print a) (map Decref (created ?body) @ [Release])) = []"
      by (rule no_abort_takeWhile)
    with None show ?thesis by (simp add: cleanup_actions_def)
  next
    case (Some e)
    then show ?thesis by (simp add: cleanup_actions_def)
  qed
  have "takeWhile (\<lambda>a. \<not> is_print a) (emitted s (callback this w d ev s)) =
          ?body @ takeWhile (\<lambda>a. \<not> is_print a) ?tail"
    unfolding emitted_callback using quiet by simp
  then have before: "filter is_abort
               (takeWhile (\<lambda>a. \<not> is_print a) (emitted s (callback this w d ev s))) = []"
    using body_quiet [of this w ev s] tail by simp
  have "last (emitted s (callback this w d ev s)) = last ?tail"
    unfolding emitted_callback
    by (cases "pending this w ev s") (simp_all add: cleanup_actions_def)
  then have lst: "last (emitted s (callback this w d ev s)) =
     (case pending this w ev s of
        None \<Rightarrow> Release
      | Some e \<Rightarrow> if exits w e then Exit else Release)"
    by (cases "pending this w ev s") (simp_all add: cleanup_actions_def)
  from before lst show ?thesis
    by (simp add: pending_at_cleanup callback_indicator emitted_prints emitted_exits)
qed

theorem pending_failure_printed_once_witness:
  "pending this0 w_no_method (KillTask [1]) s0 = Some (PyException ''AttributeError'') \<and>
   \<not> exits w_no_method (PyException ''AttributeError'') \<and>
   indicator (at_cleanup this0 w_no_method (KillTask [1]) s0)
     = Some (PyException ''AttributeError'') \<and>
   indicator (callback this0 w_no_method 7 (KillTask [1]) s0) = None \<and>
   filter is_print (emitted s0 (callback this0 w_no_method 7 (KillTask [1]) s0)) =
     [Print (PyException ''AttributeError'')] \<and>
   filter is_abort (takeWhile (\<lambda>a. \<not> is_print a)
     (emitted s0 (callback this0 w_no_method 7 (KillTask [1]) s0))) = [] \<and>
   last (emitted s0 (callback this0 w_no_method 7 (KillTask [1]) s0)) = Release \<and>
   pending this0 w_exit (KillTask [1]) s0 = Some SystemExit \<and>
   exits w_exit SystemExit \<and>
   filter is_print (emitted s0 (callback this0 w_exit 7 (KillTask [1]) s0)) = [] \<and>
   last (emitted s0 (callback this0 w_exit 7 (KillTask [1]) s0)) = Exit"
proof -
  have p1: "pending this0 w_no_method (KillTask [1]) s0 = Some (PyException ''AttributeError'')"
    and x1: "\<not> exits w_no_method (PyException ''AttributeError'')"
    by (simp_all add: world_defs this0_def s0_def w_no_method_def)
  have p2: "pending this0 w_exit (KillTask [1]) s0 = Some SystemExit"
    and x2: "exits w_exit SystemExit"
    by (simp_all add: world_defs this0_def s0_def w_exit_def)
  from pending_failure_printed_once
         [where this = this0 and w = w_no_method and ev = "KillTask [1]" and s = s0 and d = 7]
    pending_failure_printed_once
         [where this = this0 and w = w_exit and ev = "KillTask [1]" and s = s0 and d = 7]
    p1 x1 p2 x2
  show ?thesis by (simp del: callback.simps at_cleanup.simps)
qed

text \<open>
  C4, as the claim has it, fails: in \<^verbatim>\<open>killTask\<close> with a handler that calls \<^verbatim>\<open>sys.exit\<close>
  no traceback of the exception pending at the label is printed, and the callback does not
  return:
  the process exits.
\<close>

theorem system_exit_is_not_printed:
  "emitted s0 (killTask this0 w_exit 7 [1] s0) =
     [Acquire,
      Marshal ''TaskID'' (Some 5),
      Invoke 9 ''killTask'' [ArgObject 8, ArgObject 5] None,
      Cerr ''Failed to call executor's killTask'',
      Exit] \<and>
   indicator (at_cleanup this0 w_exit (KillTask [1]) s0) = Some SystemExit \<and>
   exited (killTask this0 w_exit 7 [1] s0)"
  by (simp add: eval_defs w_exit_def)

text \<open>
  C5, as the code has it. In every callback that returns, that is, when no exception is
  pending at the label \<^verbatim>\<open>cleanup\<close> or one on which \<^verbatim>\<open>PyErr_Print\<close> does not end the
  process, reading the trace of the callback from the left: every reference that a
  marshalling step or the method call returned is dropped later in the same callback,
  exactly once, and nothing is dropped that is not held; at the return no reference is
  held. When the pending exception is one on which \<^verbatim>\<open>PyErr_Print\<close> ends the process
  (\<^verbatim>\<open>SystemExit\<close>), the process exits with no reference dropped and the lock not let go.
\<close>

theorem references_released:
  "(case pending this w ev s of
      None \<Rightarrow> all_released [] (emitted s (callback this w d ev s))
    | Some e \<Rightarrow>
        if exits w e
        then filter is_release (emitted s (callback this w d ev s)) = [] \<and>
             last (emitted s (callback this w d ev s)) = Exit
        else all_released [] (emitted s (callback this w d ev s)))"
proof -
  have norel: "filter is_release (body this w ev s) = []"
    using body_quiet [of this w ev s] by simp
  have ok: "all_released [] (body this w ev s @ pre @ map Decref (created (body this w ev s))
              @ [Release])"
    if pre: "filter is_release pre = []" "created pre = []" for pre
  proof -
    have "all_released [] (body this w ev s @ pre @ map Decref (created (body this w ev s))
              @ [Release]) =
          all_released (created (body this w ev s))
            (pre @ map Decref (created (body this w ev s)) @ [Release])"
      using all_released_body [OF norel, of "[]"] by simp
    also have "\<dots> = all_released (created (body this w ev s))
            (map Decref (created (body this w ev s)) @ [Release])"
      using all_released_body [OF pre(1), of "created (body this w ev s)"] pre(2) by simp
    finally show ?thesis by (simp add: all_released_decrefs)
  qed
  show ?thesis
  proof (cases "pending this w ev s")
    case None
    with ok [of "[]"] show ?thesis by (simp add: emitted_callback cleanup_actions_def)
  next
    case (Some e)
    show ?thesis
    proof (cases "exits w e")
      case True
      with Some norel show ?thesis by (simp add: emitted_callback cleanup_actions_def)
    next
      case False
      with Some ok [of "Print e # (if is_error ev then [] else [Abort d])"] show ?thesis
        by (simp add: emitted_callback cleanup_actions_def)
    qed
  qed
qed

theorem references_released_witness:
  "pending this0 w_ok (Registered [1] [2] [3]) s0 = None \<and>
   all_released [] (emitted s0 (callback this0 w_ok 7 (Registered [1] [2] [3]) s0)) \<and>
   created (emitted s0 (callback this0 w_ok 7 (Registered [1] [2] [3]) s0)) = [1, 2, 3, 6] \<and>
   pending this0 w_no_method (KillTask [1]) s0 = Some (PyException ''AttributeError'') \<and>
   \<not> exits w_no_method (PyException ''AttributeError'') \<and>
   all_released [] (emitted s0 (callback this0 w_no_method 7 (KillTask [1]) s0)) \<and>
   created (emitted s0 (callback this0 w_no_method 7 (KillTask [1]) s0)) = [5] \<and>
   pending this0 w_exit (KillTask [1]) s0 = Some SystemExit \<and>
   exits w_exit SystemExit \<and>
   filter is_release (emitted s0 (callback this0 w_exit 7 (KillTask [1]) s0)) = [] \<and>
   last (emitted s0 (callback this0 w_exit 7 (KillTask [1]) s0)) = Exit"
proof -
  have p0: "pending this0 w_ok (Registered [1] [2] [3]) s0 = None"
    by (simp add: world_defs this0_def s0_def w_ok_def)
  have p1: "pending this0 w_no_method (KillTask [1]) s0 = Some (PyException ''AttributeError'')"
    and x1: "\<not> exits w_no_method (PyException ''AttributeError'')"
    by (simp_all add: world_defs this0_def s0_def w_no_method_def)
  have p2: "pending this0 w_exit (KillTask [1]) s0 = Some SystemExit"
    and x2: "exits w_exit SystemExit"
    by (simp_all add: world_defs this0_def s0_def w_exit_def)
  have c0: "created (emitted s0 (callback this0 w_ok 7 (Registered [1] [2] [3]) s0)) = [1, 2, 3, 6]"
    by (simp add: eval_defs w_ok_def)
  have c1: "created (emitted s0 (callback this0 w_no_method 7 (KillTask [1]) s0)) = [5]"
    by (simp add: eval_defs w_no_method_def)
  from references_released
         [where this = this0 and w = w_ok and ev = "Registered [1] [2] [3]" and s = s0 and d = 7]
    references_released
         [where this = this0 and w = w_no_method and ev = "KillTask [1]" and s = s0 and d = 7]
    references_released
         [where this = this0 and w = w_exit and ev = "KillTask [1]" and s = s0 and d = 7]
    p0 p1 x1 p2 x2 c0 c1
  show ?thesis by (simp del: callback.simps)
qed

text \<open>
  C5, as the claim has it, fails: in \<^verbatim>\<open>reregistered\<close> with a handler that calls
  \<^verbatim>\<open>sys.exit\<close> the marshalled \<^verbatim>\<open>SlaveInfo\<close> object is never released: the process exits
  in \<^verbatim>\<open>PyErr_Print\<close> before the references are dropped.
\<close>

theorem system_exit_keeps_references:
  "emitted s0 (reregistered this0 w_exit 7 [1] s0) =
     [Acquire,
      Marshal ''SlaveInfo'' (Some 3),
      Invoke 9 ''reregistered'' [ArgObject 8, ArgObject 3] None,
      Cerr ''Failed to call executor re-registered'',
      Exit] \<and>
   \<not> all_released [] (emitted s0 (reregistered this0 w_exit 7 [1] s0))"
  by (simp add: eval_defs w_exit_def)

text \<open>
  C6, as the code has it. For a payload of less than \<open>2\<^sup>3\<^sup>1\<close> bytes,
  \<^verbatim>\<open>frameworkMessage\<close> and \<^verbatim>\<open>error\<close> call the handler method exactly once, with the
  proxy's driver object first and then a string of exactly the bytes of the payload, in
  their number and order, zero bytes included.
\<close>

theorem payload_bytes_exact:
  assumes "length data < 2 ^ 31"
  shows "invocations (emitted s (frameworkMessage this w d data s)) =
           [(pythonExecutor (impl this), ''frameworkMessage'',
             [ArgObject (address (impl this)), ArgString data])] \<and>
         invocations (emitted s (error this w d data s)) =
           [(pythonExecutor (impl this), ''error'',
             [ArgObject (address (impl this)), ArgString data])]"
proof -
  have "invocations (emitted s (callback this w d (FrameworkMessage data) s)) =
           [(pythonExecutor (impl this), ''frameworkMessage'',
             [ArgObject (address (impl this)), ArgString data])]"
    using s_hash_small [OF assms]
    by (simp only: emitted_invocations body_invocations) (simp add: marshal_fails_def)
  moreover have "invocations (emitted s (callback this w d (Error data) s)) =
           [(pythonExecutor (impl this), ''error'',
             [ArgObject (address (impl this)), ArgString data])]"
    using s_hash_small [OF assms]
    by (simp only: emitted_invocations body_invocations) (simp add: marshal_fails_def)
  ultimately show ?thesis by simp
qed

theorem payload_bytes_exact_witness:
  "length [0x41, 0x00, 0x42 :: byte] < 2 ^ 31 \<and>
   length [0x41, 0x00, 0x42 :: byte] = 3 \<and>
   invocations (emitted s0 (frameworkMessage this0 w_ok 7 [0x41, 0x00, 0x42] s0)) =
     [(9, ''frameworkMessage'', [ArgObject 8, ArgString [0x41, 0x00, 0x42]])] \<and>
   invocations (emitted s0 (error this0 w_no_method 7 [0x41, 0x00, 0x42] s0)) =
     [(9, ''error'', [ArgObject 8, ArgString [0x41, 0x00, 0x42]])]"
proof -
  have l: "length [0x41, 0x00, 0x42 :: byte] < 2 ^ 31" by simp
  from payload_bytes_exact [OF l, of s0 this0 w_ok 7]
    payload_bytes_exact [OF l, of s0 this0 w_no_method 7] l
  show ?thesis by (simp add: this0_def)
qed

text \<open>
  C6, as the claim has it, fails: the number of bytes is passed to \<^verbatim>\<open>s#\<close> as a
  \<^verbatim>\<open>size_t\<close> and read as a C \<^verbatim>\<open>int\<close>. For a payload of \<open>2\<^sup>3\<^sup>2\<close> bytes that
  \<^verbatim>\<open>int\<close> is 0, and the handler gets the empty string, not the payload.
\<close>

theorem large_payload_is_truncated:
  "length (replicate 4294967296 (0x41 :: byte)) = 2 ^ 32 \<and>
   invocations (emitted s0 (frameworkMessage this0 w_ok 7 (replicate 4294967296 0x41) s0)) =
     [(9, ''frameworkMessage'', [ArgObject 8, ArgString []])] \<and>
   invocations (emitted s0 (error this0 w_ok 7 (replicate 4294967296 0x41) s0)) =
     [(9, ''error'', [ArgObject 8, ArgString []])]"
  by (simp add: eval_defs w_ok_def)

text \<open>
  C7. Over any sequence of callbacks delivered to one proxy, every call of a handler method
  is made on the handler object of the proxy and has the proxy's driver object, always the
  same one, as its first argument. In a single callback the call, when it is made, is the
  method of the event's name with, after the driver object, the string built from the
  message or the objects marshalled, in the order of the marshalling steps, which is fixed
  by the event.
\<close>

theorem self_token_first:
  "(\<forall>(t, n, args)\<in>set (invocations (emitted s (run this w evs s))).
      t = pythonExecutor (impl this) \<and> take 1 args = [ArgObject (address (impl this))]) \<and>
   (invocations (emitted s (callback this w d ev s)) = [] \<or>
    invocations (emitted s (callback this w d ev s)) =
      [(pythonExecutor (impl this), method_name ev,
        ArgObject (address (impl this)) # payload ev (emitted s (callback this w d ev s)))]) \<and>
   marshal_names (emitted s (callback this w d ev s)) = marshal_types ev"
proof -
  have all: "\<forall>(t, n, args)\<in>set (invocations (emitted s (run this w evs s))).
      t = pythonExecutor (impl this) \<and> take 1 args = [ArgObject (address (impl this))]"
  proof (induction evs arbitrary: s)
    case Nil
    show ?case by (simp add: emitted_def)
  next
    case (Cons p evs)
    obtain d' ev' where p: "p = (d', ev')" by (cases p)
    show ?case
    proof (cases "exited (callback this w d' ev' s)")
      case True
      then show ?thesis
        unfolding p emitted_run_Cons
        using self_first_callback [of s this w d' ev'] by simp
    next
      case False
      then show ?thesis
        unfolding p emitted_run_Cons invocations_append
        using self_first_callback [of s this w d' ev'] Cons.IH [of "callback this w d' ev' s"]
        by auto
    qed
  qed
  have "handler_args this ev (objects (marshal_results w (event_messages ev) (runtime_of s)))
          = ArgObject (address (impl this)) # payload ev (body this w ev s)"
    using handler_args_payload [of this ev "body this w ev s"] by (simp only: body_marshalled)
  then have one: "invocations (emitted s (callback this w d ev s)) = [] \<or>
    invocations (emitted s (callback this w d ev s)) =
      [(pythonExecutor (impl this), method_name ev,
        ArgObject (address (impl this)) # payload ev (emitted s (callback this w d ev s)))]"
    unfolding emitted_invocations payload_emitted body_invocations by simp
  from all one emitted_marshal_names [of s this w d ev] show ?thesis by blast
qed

theorem self_token_first_witness:
  "invocations (emitted s0 (run this0 w_ok
      [(7, Registered [1] [2] [3]), (7, LaunchTask [4]), (7, Error [0x41, 0x00, 0x42])] s0)) =
     [(9, ''registered'', [ArgObject 8, ArgObject 1, ArgObject 2, ArgObject 3]),
      (9, ''launchTask'', [ArgObject 8, ArgObject 4]),
      (9, ''error'', [ArgObject 8, ArgString [0x41, 0x00, 0x42]])] \<and>
   list_all (\<lambda>(t, n, args). t = 9 \<and> take 1 args = [ArgObject 8])
     (invocations (emitted s0 (run this0 w_ok
        [(7, Registered [1] [2] [3]), (7, LaunchTask [4]), (7, Error [0x41, 0x00, 0x42])] s0))) \<and>
   invocations (emitted s0 (callback this0 w_ok 7 (Registered [1] [2] [3]) s0)) =
     [(9, ''registered'', [ArgObject 8, ArgObject 1, ArgObject 2, ArgObject 3])] \<and>
   marshal_names (emitted s0 (callback this0 w_ok 7 (Registered [1] [2] [3]) s0)) =
     [''ExecutorInfo'', ''FrameworkInfo'', ''SlaveInfo'']"
proof -
  have run: "invocations (emitted s0 (run this0 w_ok
      [(7, Registered [1] [2] [3]), (7, LaunchTask [4]), (7, Error [0x41, 0x00, 0x42])] s0)) =
     [(9, ''registered'', [ArgObject 8, ArgObject 1, ArgObject 2, ArgObject 3]),
      (9, ''launchTask'', [ArgObject 8, ArgObject 4]),
      (9, ''error'', [ArgObject 8, ArgString [0x41, 0x00, 0x42]])]"
    by (simp add: eval_defs w_ok_def)
  have one: "invocations (emitted s0 (callback this0 w_ok 7 (Registered [1] [2] [3]) s0)) =
     [(9, ''registered'', [ArgObject 8, ArgObject 1, ArgObject 2, ArgObject 3])]"
    by (simp add: eval_defs w_ok_def)
  have a: "address (impl this0) = 8" and e: "pythonExecutor (impl this0) = 9"
    by (simp_all add: this0_def)
  from self_token_first [of s0 this0 w_ok
      "[(7, Registered [1] [2] [3]), (7, LaunchTask [4]), (7, Error [0x41, 0x00, 0x42])]"
      7 "Registered [1] [2] [3]"]
  show ?thesis unfolding a e list_all_iff using run one by simp
qed

text \<open>
  C8, as the code has it. In every callback but \<^verbatim>\<open>error\<close>, when an exception is pending
  at the label \<^verbatim>\<open>cleanup\<close> on which \<^verbatim>\<open>PyErr_Print\<close> does not end the process: what the
  callback does from the label on is, in this order and nothing else, to print the
  exception, to abort the driver, to drop every reference it has created, and to let the
  lock go. So the driver is aborted exactly once, in the same callback, right after the
  exception is printed and before the references are dropped and the interpreter lock is
  let go; nothing is released before the abort, and there is no second method call.
\<close>

theorem abort_precedes_release:
  assumes "\<not> is_error ev" and "pending this w ev s = Some e" and "\<not> exits w e"
  shows "emitted s (callback this w d ev s) =
           body this w ev s @ [Print e, Abort d]
             @ map Decref (created (body this w ev s)) @ [Release] \<and>
         filter is_abort (body this w ev s) = [] \<and>
         filter is_print (body this w ev s) = [] \<and>
         filter is_release (body this w ev s) = [] \<and>
         filter is_abort (emitted s (callback this w d ev s)) = [Abort d] \<and>
         takeWhile (\<lambda>a. \<not> is_abort a) (emitted s (callback this w d ev s)) =
           body this w ev s @ [Print e] \<and>
         filter is_release
           (takeWhile (\<lambda>a. \<not> is_abort a) (emitted s (callback this w d ev s))) = [] \<and>
         dropWhile (\<lambda>a. \<not> is_abort a) (emitted s (callback this w d ev s)) =
           Abort d # map Decref (created (emitted s (callback this w d ev s))) @ [Release] \<and>
         invocations (dropWhile (\<lambda>a. \<not> is_abort a) (emitted s (callback this w d ev s))) = []"
proof -
  have quiet: "\<forall>a\<in>set (body this w ev s). \<not> is_abort a"
    using body_quiet [of this w ev s] by (simp add: filter_empty_conv)
  have shape: "emitted s (callback this w d ev s) =
           body this w ev s @ [Print e, Abort d]
             @ map Decref (created (body this w ev s)) @ [Release]"
    using assms by (simp add: emitted_callback cleanup_actions_def)
  have em: "emitted s (callback this w d ev s) =
              (body this w ev s @ [Print e])
                @ Abort d # map Decref (created (body this w ev s)) @ [Release]"
    using shape by simp
  have before: "\<forall>a\<in>set (body this w ev s @ [Print e]). \<not> is_abort a"
    using quiet by simp
  have tw: "takeWhile (\<lambda>a. \<not> is_abort a) (emitted s (callback this w d ev s)) =
              body this w ev s @ [Print e]"
    unfolding em using before by (subst takeWhile_append2) auto
  have dw: "dropWhile (\<lambda>a. \<not> is_abort a) (emitted s (callback this w d ev s)) =
              Abort d # map Decref (created (body this w ev s)) @ [Release]"
    unfolding em using before by (subst dropWhile_append2) auto
  have rel: "filter is_release (body this w ev s @ [Print e]) = []"
    using body_quiet [of this w ev s] by simp
  have cr: "created (emitted s (callback this w d ev s)) = created (body this w ev s)"
    by (rule emitted_created)
  have dw': "dropWhile (\<lambda>a. \<not> is_abort a) (emitted s (callback this w d ev s)) =
           Abort d # map Decref (created (emitted s (callback this w d ev s))) @ [Release]"
    unfolding cr by (rule dw)
  have inv: "invocations (dropWhile (\<lambda>a. \<not> is_abort a) (emitted s (callback this w d ev s)))
               = []"
    unfolding dw by (simp add: invocations_append observe_decrefs)
  have rel': "filter is_release
           (takeWhile (\<lambda>a. \<not> is_abort a) (emitted s (callback this w d ev s))) = []"
    unfolding tw by (rule rel)
  from assms have ab: "filter is_abort (emitted s (callback this w d ev s)) = [Abort d]"
    by (simp only: emitted_aborts) simp
  from shape body_quiet [of this w ev s] ab tw rel' dw' inv show ?thesis by blast
qed

theorem abort_precedes_release_witness:
  "\<not> is_error (LaunchTask [1]) \<and>
   pending this0 w_no_method (LaunchTask [1]) s0 = Some (PyException ''AttributeError'') \<and>
   \<not> exits w_no_method (PyException ''AttributeError'') \<and>
   filter is_abort (emitted s0 (callback this0 w_no_method 7 (LaunchTask [1]) s0)) = [Abort 7] \<and>
   takeWhile (\<lambda>a. \<not> is_abort a) (emitted s0 (callback this0 w_no_method 7 (LaunchTask [1]) s0)) =
     [Acquire,
      Marshal ''TaskInfo'' (Some 4),
      Invoke 9 ''launchTask'' [ArgObject 8, ArgObject 4] None,
      Cerr ''Failed to call executor's launchTask'',
      Print (PyException ''AttributeError'')] \<and>
   dropWhile (\<lambda>a. \<not> is_abort a) (emitted s0 (callback this0 w_no_method 7 (LaunchTask [1]) s0)) =
     [Abort 7, Decref 4, Release]"
proof -
  have e: "\<not> is_error (LaunchTask [1])" by simp
  have p: "pending this0 w_no_method (LaunchTask [1]) s0 = Some (PyException ''AttributeError'')"
    and x: "\<not> exits w_no_method (PyException ''AttributeError'')"
    by (simp_all add: world_defs this0_def s0_def w_no_method_def)
  have c: "created (emitted s0 (callback this0 w_no_method 7 (LaunchTask [1]) s0)) = [4]"
    by (simp add: eval_defs w_no_method_def)
  have b: "body this0 w_no_method (LaunchTask [1]) s0 =
     [Acquire,
      Marshal ''TaskInfo'' (Some 4),
      Invoke 9 ''launchTask'' [ArgObject 8, ArgObject 4] None,
      Cerr ''Failed to call executor's launchTask'']"
    by (simp add: body_def eval_defs w_no_method_def)
  from abort_precedes_release [OF e p x, of 7] e p x show ?thesis
    unfolding c b by (simp del: callback.simps)
qed

text \<open>
  C8, as the claim has it, fails: in \<^verbatim>\<open>launchTask\<close> with a handler that has no such
  method, the driver is aborted while the marshalled \<^verbatim>\<open>TaskInfo\<close> object is still held
  and the lock is still taken; the object is released after the abort.
\<close>

theorem launchTask_aborts_before_decref:
  "emitted s0 (launchTask this0 w_no_method 7 [1] s0) =
     [Acquire,
      Marshal ''TaskInfo'' (Some 4),
      Invoke 9 ''launchTask'' [ArgObject 8, ArgObject 4] None,
      Cerr ''Failed to call executor's launchTask'',
      Print (PyException ''AttributeError''),
      Abort 7,
      Decref 4,
      Release]"
  by (simp add: eval_defs w_no_method_def)

text \<open>
  C9, as the code has it. In every callback, what is done at the label \<^verbatim>\<open>cleanup\<close>
  depends on the exception pending there alone, which is the one the last step has left,
  and not on the result of the method call. When an exception is pending on which
  \<^verbatim>\<open>PyErr_Print\<close> does not end the process, it is printed (once) and, unless the callback
  is \<^verbatim>\<open>error\<close>, the driver is aborted (once): so also when the method call has returned a
  result. When the pending exception is one on which \<^verbatim>\<open>PyErr_Print\<close> ends the process
  (\<^verbatim>\<open>SystemExit\<close>), the process exits, no traceback is printed and the driver is not
  aborted.
  When none is pending, nothing is printed and the driver is not aborted.
\<close>

theorem decision_by_indicator:
  "indicator (at_cleanup this w ev s) = pending this w ev s \<and>
   filter is_abort (emitted s (callback this w d ev s)) =
     (case pending this w ev s of
        None \<Rightarrow> []
      | Some e \<Rightarrow> if exits w e \<or> is_error ev then [] else [Abort d]) \<and>
   filter is_print (emitted s (callback this w d ev s)) =
     (case pending this w ev s of
        None \<Rightarrow> []
      | Some e \<Rightarrow> if exits w e then [] else [Print e]) \<and>
   filter is_exit (emitted s (callback this w d ev s)) =
     (case pending this w ev s of
        None \<Rightarrow> []
      | Some e \<Rightarrow> if exits w e then [Exit] else []) \<and>
   (\<forall>r e. \<not> marshal_fails w ev s \<and> fst (handler_call this w ev s) = Some r \<and>
          pending this w ev s = Some e \<and> \<not> exits w e \<and> \<not> is_error ev \<longrightarrow>
      Print e \<in> set (emitted s (callback this w d ev s)) \<and>
      Abort d \<in> set (emitted s (callback this w d ev s)))"
proof -
  have both: "Print e \<in> set (emitted s (callback this w d ev s)) \<and>
              Abort d \<in> set (emitted s (callback this w d ev s))"
    if "pending this w ev s = Some e" "\<not> exits w e" "\<not> is_error ev" for e
  proof -
    from that have "filter is_abort (emitted s (callback this w d ev s)) = [Abort d]"
      by (simp only: emitted_aborts) simp
    then have a: "Abort d \<in> set (filter is_abort (emitted s (callback this w d ev s)))"
      by simp
    from that have "filter is_print (emitted s (callback this w d ev s)) = [Print e]"
      by (simp only: emitted_prints) simp
    then have "Print e \<in> set (filter is_print (emitted s (callback this w d ev s)))"
      by simp
    with a show ?thesis by simp
  qed
  from both pending_at_cleanup [of this w ev s] emitted_aborts [of s this w d ev]
    emitted_prints [of s this w d ev] emitted_exits [of s this w d ev]
  show ?thesis by blast
qed

theorem decision_by_indicator_witness:
  "\<not> marshal_fails w_result_with_error (FrameworkMessage [1]) s0 \<and>
   fst (handler_call this0 w_result_with_error (FrameworkMessage [1]) s0) = Some 6 \<and>
   pending this0 w_result_with_error (FrameworkMessage [1]) s0
     = Some (PyException ''RuntimeError'') \<and>
   \<not> exits w_result_with_error (PyException ''RuntimeError'') \<and>
   \<not> is_error (FrameworkMessage [1]) \<and>
   filter is_abort (emitted s0 (callback this0 w_result_with_error 7 (FrameworkMessage [1]) s0)) =
     [Abort 7] \<and>
   Print (PyException ''RuntimeError'')
     \<in> set (emitted s0 (callback this0 w_result_with_error 7 (FrameworkMessage [1]) s0)) \<and>
   Abort 7 \<in> set (emitted s0 (callback this0 w_result_with_error 7 (FrameworkMessage [1]) s0))"
proof -
  have m: "\<not> marshal_fails w_result_with_error (FrameworkMessage [1]) s0"
    and h: "fst (handler_call this0 w_result_with_error (FrameworkMessage [1]) s0) = Some 6"
    and p: "pending this0 w_result_with_error (FrameworkMessage [1]) s0
              = Some (PyException ''RuntimeError'')"
    and x: "\<not> exits w_result_with_error (PyException ''RuntimeError'')"
    by (simp_all add: world_defs this0_def s0_def w_result_with_error_def)
  have e: "\<not> is_error (FrameworkMessage [1])" by simp
  from decision_by_indicator
         [where this = this0 and w = w_result_with_error and ev = "FrameworkMessage [1]"
            and s = s0 and d = 7]
    m h p x e
  show ?thesis by (simp del: callback.simps at_cleanup.simps)
qed

text \<open>
  C9, as the claim has it, fails: in \<^verbatim>\<open>frameworkMessage\<close> with a handler that returns a
  result and leaves \<^verbatim>\<open>SystemExit\<close> pending, an exception is pending at the label, and
  neither is its traceback printed nor is the driver aborted: the process exits.
\<close>

theorem pending_system_exit_is_not_aborted:
  "emitted s0 (frameworkMessage this0 w_result_with_exit 7 [1] s0) =
     [Acquire,
      Invoke 9 ''frameworkMessage'' [ArgObject 8, ArgString [1]] (Some 6),
      Exit] \<and>
   indicator (at_cleanup this0 w_result_with_exit (FrameworkMessage [1]) s0) = Some SystemExit"
  by (simp add: eval_defs w_result_with_exit_def)



end
